theory Spec2Isabelle
  imports Main "HOL-Library.Word" "HOL-Library.AList"
begin

unbundle bit_operations_syntax

section \<open>Errors\<close>

text \<open>
  Go error values.  A sentinel (\<open>ErrCorrupt\<close>, the SDK's typed errors, \<open>ctx.Err()\<close>)
  is a constructor of its own; \<open>Wrapped pre e post\<close> is an error that unwraps to
  \<open>e\<close> (\<open>fmt.Errorf\<close> with the verb \<open>%w\<close>, or an SDK operation error), its message
  being \<open>pre\<close>, the message of \<open>e\<close>, \<open>post\<close>; \<open>ErrorString m\<close> is any other error,
  known by its message only.
  \<open>PathError op path n\<close> is the \<open>*fs.PathError\<close> of package os.
\<close>

datatype errno = ENOENT | EACCES | EISDIR | EIO

datatype error =
    ErrCorrupt
  | ContextErr
  | ProvisionedThroughputExceededException
  | RequestLimitExceeded
  | NoSuchKey
  | NotFound
  | CorruptInputError
  | PathError string string errno
  | ErrorString string
  | Wrapped string error string

text \<open>\<open>errors.Is(err, ErrCorrupt)\<close>: some error of the chain is the sentinel itself.\<close>

fun errors_Is_ErrCorrupt :: "error \<Rightarrow> bool" where
  "errors_Is_ErrCorrupt ErrCorrupt = True"
| "errors_Is_ErrCorrupt (Wrapped pre e post) = errors_Is_ErrCorrupt e"
| "errors_Is_ErrCorrupt _ = False"

text \<open>\<open>errors.As\<close> with a target of the named SDK type.\<close>

fun errors_As_throughput :: "error \<Rightarrow> bool" where
  "errors_As_throughput ProvisionedThroughputExceededException = True"
| "errors_As_throughput (Wrapped pre e post) = errors_As_throughput e"
| "errors_As_throughput _ = False"

fun errors_As_requestLimit :: "error \<Rightarrow> bool" where
  "errors_As_requestLimit RequestLimitExceeded = True"
| "errors_As_requestLimit (Wrapped pre e post) = errors_As_requestLimit e"
| "errors_As_requestLimit _ = False"

fun errors_As_NoSuchKey :: "error \<Rightarrow> bool" where
  "errors_As_NoSuchKey NoSuchKey = True"
| "errors_As_NoSuchKey (Wrapped pre e post) = errors_As_NoSuchKey e"
| "errors_As_NoSuchKey _ = False"

fun errors_As_NotFound :: "error \<Rightarrow> bool" where
  "errors_As_NotFound NotFound = True"
| "errors_As_NotFound (Wrapped pre e post) = errors_As_NotFound e"
| "errors_As_NotFound _ = False"

text \<open>
  \<open>os.IsNotExist\<close> looks through a \<open>*PathError\<close> only (it predates error wrapping and
  does not follow \<open>Unwrap\<close>).
\<close>

fun os_IsNotExist :: "error \<Rightarrow> bool" where
  "os_IsNotExist (PathError op' path n) = (n = ENOENT)"
| "os_IsNotExist _ = False"

text \<open>The \<open>Error()\<close> text of an error, as \<open>%v\<close> prints it.\<close>

fun Error :: "error \<Rightarrow> string" where
  "Error ErrCorrupt = ''corrupt line''"
| "Error ContextErr = ''context canceled''"
| "Error ProvisionedThroughputExceededException = ''ProvisionedThroughputExceededException''"
| "Error RequestLimitExceeded = ''RequestLimitExceeded''"
| "Error NoSuchKey = ''NoSuchKey''"
| "Error NotFound = ''NotFound''"
| "Error CorruptInputError = ''illegal base64 data''"
| "Error (PathError op' path n) = op' @ '' '' @ path"
| "Error (ErrorString m) = m"
| "Error (Wrapped pre e post) = pre @ Error e @ post"

section \<open>Package itemimage: operations and the JSON line decoder\<close>

text \<open>
  The SDK's \<open>types.AttributeValue\<close> union.  A Go \<open>map[string]types.AttributeValue\<close> is
  an association list: its order is the order in which \<open>range\<close> happens to visit the
  entries, lookup is \<open>map_of\<close>; a field that may be \<open>nil\<close> is an \<open>option\<close>.
\<close>

datatype AttributeValue =
    AttributeValueMemberS string
  | AttributeValueMemberN string
  | AttributeValueMemberB "8 word list"
  | AttributeValueMemberBOOL bool
  | AttributeValueMemberNULL bool
  | AttributeValueMemberSS "string list"
  | AttributeValueMemberNS "string list"
  | AttributeValueMemberBS "8 word list list"
  | AttributeValueMemberL "AttributeValue list"
  | AttributeValueMemberM "(string \<times> AttributeValue) list"

type_synonym attr_map = "(string \<times> AttributeValue) list"

datatype OperationType = OpPut | OpDelete | OpUpdate

record Operation =
  Type :: OperationType
  Keys :: "attr_map option"
  NewImage :: "attr_map option"
  OldImage :: "attr_map option"

text \<open>\<open>Operation{}\<close>: the zero value (\<open>OpPut\<close> is \<open>iota = 0\<close>).\<close>

definition Operation_zero :: Operation where
  "Operation_zero = \<lparr>Type = OpPut, Keys = None, NewImage = None, OldImage = None\<rparr>"

text \<open>
  The two library calls of \<open>Decode\<close> are parameters: \<open>json.Unmarshal\<close> into a
  \<open>map[string]json.RawMessage\<close> (an association list from member name to raw text) and
  \<open>attributevalue.UnmarshalMapJSON\<close>.
\<close>

record json_lib =
  json_Unmarshal :: "string \<Rightarrow> error + (string \<times> string) list"
  UnmarshalMapJSON :: "string \<Rightarrow> error + attr_map option"

text \<open>
  One optional member of the INCREMENTAL shape (\<open>Keys\<close>, \<open>NewImage\<close>, \<open>OldImage\<close>):
  when the raw map has it, it is parsed and stored into the operation by \<open>upd\<close>;
  when absent the field stays \<open>nil\<close>.
\<close>

definition decode_member ::
  "json_lib \<Rightarrow> (string \<times> string) list \<Rightarrow> string \<Rightarrow>
   (attr_map option \<Rightarrow> Operation \<Rightarrow> Operation) \<Rightarrow> Operation \<Rightarrow> error + Operation" where
  "decode_member lib raw name upd op =
     (case map_of raw name of
        None \<Rightarrow> Inr op
      | Some r \<Rightarrow>
          (case UnmarshalMapJSON lib r of
             Inl err \<Rightarrow>
               Inl (Wrapped [] ErrCorrupt ('': failed to parse '' @ name @ '': '' @ Error err))
           | Inr m \<Rightarrow> Inr (upd m op)))"

definition Decode :: "json_lib \<Rightarrow> string \<Rightarrow> error + Operation" where
  "Decode lib line =
     (case json_Unmarshal lib line of
        Inl err \<Rightarrow> Inl (Wrapped [] ErrCorrupt ('': '' @ Error err))
      | Inr raw \<Rightarrow>
          (case map_of raw ''Item'' of
             Some itemRaw \<Rightarrow>
               (case UnmarshalMapJSON lib itemRaw of
                  Inl err \<Rightarrow>
                    Inl (Wrapped [] ErrCorrupt ('': failed to parse Item: '' @ Error err))
                | Inr item \<Rightarrow> Inr (Operation_zero\<lparr>NewImage := item, Type := OpPut\<rparr>))
           | None \<Rightarrow>
               (case decode_member lib raw ''Keys'' (\<lambda>m op. op\<lparr>Keys := m\<rparr>) Operation_zero of
                  Inl e \<Rightarrow> Inl e
                | Inr op1 \<Rightarrow>
               (case decode_member lib raw ''NewImage'' (\<lambda>m op. op\<lparr>NewImage := m\<rparr>) op1 of
                  Inl e \<Rightarrow> Inl e
                | Inr op2 \<Rightarrow>
               (case decode_member lib raw ''OldImage'' (\<lambda>m op. op\<lparr>OldImage := m\<rparr>) op2 of
                  Inl e \<Rightarrow> Inl e
                | Inr op \<Rightarrow>
                    (if NewImage op \<noteq> None \<and> OldImage op \<noteq> None then
                       Inr (op\<lparr>Type := OpUpdate\<rparr>)
                     else if NewImage op \<noteq> None then Inr (op\<lparr>Type := OpPut\<rparr>)
                     else if OldImage op \<noteq> None then Inr (op\<lparr>Type := OpDelete\<rparr>)
                     else Inl (Wrapped [] ErrCorrupt '': no image data found'')))))))"

section \<open>Package checkpoint: the state record\<close>

record State =
  ExportID :: string
  LastFile :: string
  LastByteOffset :: int

text \<open>\<open>State{}\<close>, the zero state.\<close>

definition State_zero :: State where
  "State_zero = \<lparr>ExportID = [], LastFile = [], LastByteOffset = 0\<rparr>"

section \<open>Package metrics: the counters\<close>

record Metrics =
  recordsProcessed :: int
  batchesWritten :: int
  errors :: int
  corruptCount :: int

definition RecordProcessed :: "Metrics \<Rightarrow> Metrics" where
  "RecordProcessed m = m\<lparr>recordsProcessed := recordsProcessed m + 1\<rparr>"

definition RecordBatchWritten :: "Metrics \<Rightarrow> Metrics" where
  "RecordBatchWritten m = m\<lparr>batchesWritten := batchesWritten m + 1\<rparr>"

definition RecordError :: "Metrics \<Rightarrow> Metrics" where
  "RecordError m = m\<lparr>errors := errors m + 1\<rparr>"

definition RecordCorrupt :: "Metrics \<Rightarrow> Metrics" where
  "RecordCorrupt m = m\<lparr>corruptCount := corruptCount m + 1\<rparr>"

section \<open>Package manifest: file descriptors\<close>

record FileMeta =
  Key :: string
  ETag :: string
  MD5Base64 :: string
  ItemCount :: int

section \<open>Package coordinator: the worker\<close>

text \<open>
  The coordinator's collaborators are interfaces; each call's answer is given by the
  environment, as a function of the number of collaborator calls made so far (\<open>clock\<close>)
  and of the call's arguments.  \<open>streamer_Stream\<close> gives the lines (with their byte
  offsets) that the streamer delivers to the callback, and the error it ends with when
  the callback never fails; \<open>ctx_Done\<close> says whether the context is cancelled before a
  timer fires.  The worker's state holds what it mutates (metrics, its status, the batch
  buffer) and a log of the calls it made.
\<close>

record collaborators =
  parser_Decode :: "string \<Rightarrow> error + Operation"
  streamer_Stream :: "nat \<Rightarrow> string \<Rightarrow> string \<Rightarrow> int \<Rightarrow> (string \<times> int) list \<times> error option"
  writer_WriteBatch :: "nat \<Rightarrow> Operation list \<Rightarrow> error option"
  store_Load :: "nat \<Rightarrow> error + State"
  store_Save :: "nat \<Rightarrow> State \<Rightarrow> error option"
  ctx_Done :: "nat \<Rightarrow> bool"

record Config =
  BatchSize :: int
  exportBucketName :: string

record WorkerStatus =
  LastError :: "error option"
  CurrentFile :: string
  ItemsWritten :: int
  BatchesCount :: int

record worker_state =
  clock :: nat
  metrics :: Metrics
  status :: WorkerStatus
  batch :: "Operation list"
  streamed :: "(string \<times> string \<times> int) list"
  written :: "Operation list list"
  saved :: "State list"

definition tick :: "worker_state \<Rightarrow> worker_state" where
  "tick ws = ws\<lparr>clock := clock ws + 1\<rparr>"

definition checkpointInterval :: int where
  "checkpointInterval = 100"

definition completedFileOffset :: int where
  "completedFileOffset = - 1"

definition worker_maxRetries :: nat where
  "worker_maxRetries = 3"

definition recordError :: "worker_state \<Rightarrow> error \<Rightarrow> worker_state" where
  "recordError ws err =
     ws\<lparr>metrics := RecordError (metrics ws), status := (status ws)\<lparr>LastError := Some err\<rparr>\<rparr>"

definition writeBatch ::
  "collaborators \<Rightarrow> worker_state \<Rightarrow> Operation list \<Rightarrow> FileMeta \<Rightarrow> int \<Rightarrow> bool \<Rightarrow>
   worker_state \<times> error option" where
  "writeBatch c ws ops file offset shouldCheckpoint =
     (let ws1 = tick (ws\<lparr>written := written ws @ [ops]\<rparr>) in
      case writer_WriteBatch c (clock ws) ops of
        Some err \<Rightarrow> (recordError ws1 err, Some err)
      | None \<Rightarrow>
          (let ws2 = ws1\<lparr>metrics := RecordBatchWritten (metrics ws1),
                         status := (status ws1)
                           \<lparr>ItemsWritten := ItemsWritten (status ws1) + int (length ops),
                            BatchesCount := BatchesCount (status ws1) + 1\<rparr>\<rparr>
           in if shouldCheckpoint then
                (let st = \<lparr>ExportID = Key file, LastFile = Key file, LastByteOffset = offset\<rparr>;
                     ws3 = tick (ws2\<lparr>saved := saved ws2 @ [st]\<rparr>)
                 in case store_Save c (clock ws2) st of
                      Some err \<Rightarrow> (recordError ws3 err, Some err)
                    | None \<Rightarrow> (ws3, None))
              else (ws2, None)))"

text \<open>The locals of the per-file loop that the callback closes over.\<close>

record file_locals =
  currentOffset :: int
  batchesSinceCheckpoint :: int

text \<open>The per-line callback handed to the streamer.\<close>

definition line_callback ::
  "collaborators \<Rightarrow> Config \<Rightarrow> FileMeta \<Rightarrow> string \<times> int \<Rightarrow> worker_state \<times> file_locals \<Rightarrow>
   (worker_state \<times> file_locals) \<times> error option" where
  "line_callback c cfg file lb s =
     (case lb of (line, byteOffset) \<Rightarrow>
      case s of (ws, loc) \<Rightarrow>
        (let loc1 = loc\<lparr>currentOffset := byteOffset\<rparr> in
         case parser_Decode c line of
           Inl err \<Rightarrow>
             if err = ErrCorrupt then ((ws\<lparr>metrics := RecordCorrupt (metrics ws)\<rparr>, loc1), None)
             else ((ws\<lparr>metrics := RecordError (metrics ws)\<rparr>, loc1), Some err)
         | Inr op \<Rightarrow>
             (let ws1 = ws\<lparr>batch := batch ws @ [op], metrics := RecordProcessed (metrics ws)\<rparr> in
              if BatchSize cfg \<le> int (length (batch ws1)) then
                (let loc2 = loc1\<lparr>batchesSinceCheckpoint := batchesSinceCheckpoint loc1 + 1\<rparr>;
                     shouldCheckpoint = (checkpointInterval \<le> batchesSinceCheckpoint loc2)
                 in case writeBatch c ws1 (batch ws1) file (currentOffset loc2) shouldCheckpoint of
                      (ws2, Some err) \<Rightarrow> ((ws2, loc2), Some err)
                    | (ws2, None) \<Rightarrow>
                        ((ws2\<lparr>batch := []\<rparr>,
                          if shouldCheckpoint then loc2\<lparr>batchesSinceCheckpoint := 0\<rparr> else loc2),
                         None))
              else ((ws1, loc1), None))))"

text \<open>
  The streamer (an external collaborator) calls the callback on each line in order and
  stops with the callback's error at the first line where it fails.
\<close>

fun feed_lines :: "('l \<Rightarrow> 's \<Rightarrow> 's \<times> error option) \<Rightarrow> 'l list \<Rightarrow> 's \<Rightarrow> 's \<times> error option" where
  "feed_lines cb [] s = (s, None)"
| "feed_lines cb (l # ls) s =
     (case cb l s of
        (s', Some err) \<Rightarrow> (s', Some err)
      | (s', None) \<Rightarrow> feed_lines cb ls s')"

definition Stream ::
  "collaborators \<Rightarrow> Config \<Rightarrow> FileMeta \<Rightarrow> int \<Rightarrow> worker_state \<times> file_locals \<Rightarrow>
   (worker_state \<times> file_locals) \<times> error option" where
  "Stream c cfg file offset s =
     (case s of (ws, loc) \<Rightarrow>
      case streamer_Stream c (clock ws) (exportBucketName cfg) (Key file) offset of
        (lines, final) \<Rightarrow>
          (let ws1 = tick (ws\<lparr>streamed := streamed ws @ [(exportBucketName cfg, Key file, offset)]\<rparr>)
           in case feed_lines (line_callback c cfg file) lines (ws1, loc) of
                (s', Some err) \<Rightarrow> (s', Some err)
              | (s', None) \<Rightarrow> (s', final)))"

text \<open>
  The streaming retry loop \<open>for retry := 0; retry < maxRetries; retry++\<close>.  It ends
  with \<open>Cancelled\<close> when the worker returns \<open>ctx.Err()\<close> from the wait, and with
  \<open>Finished streamErr\<close> when the loop is left by \<open>break\<close> or by its condition.
\<close>

datatype stream_outcome = Cancelled error | Finished "error option"

function stream_retry ::
  "collaborators \<Rightarrow> Config \<Rightarrow> FileMeta \<Rightarrow> int \<Rightarrow> nat \<Rightarrow> error option \<Rightarrow>
   worker_state \<times> file_locals \<Rightarrow> (worker_state \<times> file_locals) \<times> stream_outcome" where
  "stream_retry c cfg file offset retry streamErr s =
     (if retry < worker_maxRetries then
        (if 0 < retry \<and> ctx_Done c (clock (fst s)) then ((tick (fst s), snd s), Cancelled ContextErr)
         else
           (case Stream c cfg file offset ((if 0 < retry then tick (fst s) else fst s), snd s) of
              (s', None) \<Rightarrow> (s', Finished None)
            | (s', Some err) \<Rightarrow>
                stream_retry c cfg file offset (retry + 1) (Some err)
                  (recordError (fst s') err, snd s')))
      else (s, Finished streamErr))"
  by pat_completeness auto
termination
  by (relation "measure (\<lambda>(c, cfg, file, offset, retry, streamErr, s). worker_maxRetries - retry)") auto

text \<open>The body of \<open>for file := range tasks\<close>: \<open>Some err\<close> when the worker returns \<open>err\<close>.\<close>

definition worker_file ::
  "collaborators \<Rightarrow> Config \<Rightarrow> worker_state \<Rightarrow> FileMeta \<Rightarrow> worker_state \<times> error option" where
  "worker_file c cfg ws0 file =
     (let ws = ws0\<lparr>status := (status ws0)\<lparr>CurrentFile := Key file\<rparr>\<rparr> in
      case store_Load c (clock ws) of
        Inl err \<Rightarrow>
          (recordError (tick ws) err,
           Some (Wrapped (''failed to load checkpoint for file '' @ Key file @ '': '') err []))
      | Inr state \<Rightarrow>
          if Key file = LastFile state \<and> LastByteOffset state = completedFileOffset then
            (tick ws, None)
          else
            (let offset = (if Key file = LastFile state then LastByteOffset state else 0);
                 loc = \<lparr>currentOffset = 0, batchesSinceCheckpoint = 0\<rparr>
             in case stream_retry c cfg file offset 0 None (tick ws, loc) of
                  ((ws1, loc1), Cancelled err) \<Rightarrow> (ws1, Some err)
                | ((ws1, loc1), Finished (Some streamErr)) \<Rightarrow>
                    (ws1, Some (Wrapped (''failed to process file '' @ Key file @
                                          '' after 3 retries: '') streamErr []))
                | ((ws1, loc1), Finished None) \<Rightarrow>
                    (case (if batch ws1 \<noteq> []
                           then (case writeBatch c ws1 (batch ws1) file (currentOffset loc1) True of
                                   (ws2, Some err) \<Rightarrow> (ws2, Some err)
                                 | (ws2, None) \<Rightarrow> (ws2\<lparr>batch := []\<rparr>, None))
                           else (ws1, None)) of
                       (ws2, Some err) \<Rightarrow> (ws2, Some err)
                     | (ws2, None) \<Rightarrow>
                         (let st = \<lparr>ExportID = Key file, LastFile = Key file,
                                    LastByteOffset = completedFileOffset\<rparr>;
                              ws3 = tick (ws2\<lparr>saved := saved ws2 @ [st]\<rparr>)
                          in case store_Save c (clock ws2) st of
                               Some err \<Rightarrow>
                                 (recordError ws3 err,
                                  Some (Wrapped (''failed to save completion checkpoint for file '' @
                                                 Key file @ '': '') err []))
                             | None \<Rightarrow> (ws3, None)))))"

text \<open>
  The loop \<open>for file := range tasks\<close> over the files the worker receives from the
  task channel, in order; and the worker, which starts with an empty batch buffer.
\<close>

fun worker_loop ::
  "collaborators \<Rightarrow> Config \<Rightarrow> worker_state \<Rightarrow> FileMeta list \<Rightarrow> worker_state \<times> error option" where
  "worker_loop c cfg ws [] = (ws, None)"
| "worker_loop c cfg ws (file # files) =
     (case worker_file c cfg ws file of
        (ws', Some err) \<Rightarrow> (ws', Some err)
      | (ws', None) \<Rightarrow> worker_loop c cfg ws' files)"

definition worker ::
  "collaborators \<Rightarrow> Config \<Rightarrow> worker_state \<Rightarrow> FileMeta list \<Rightarrow> worker_state \<times> error option" where
  "worker c cfg ws files = worker_loop c cfg (ws\<lparr>batch := []\<rparr>) files"

section \<open>Package writer\<close>

text \<open>
  A \<open>types.WriteRequest\<close> as the writer builds it, and the \<open>RequestItems\<close> of a
  \<open>BatchWriteItem\<close> call: a map from table name to requests.
\<close>

datatype WriteRequest = PutRequest "attr_map option" | DeleteRequest "attr_map option"

type_synonym RequestItems = "(string \<times> WriteRequest list) list"

record UpdateItemInput =
  TableName :: string
  UpdateItemInput_Key :: "attr_map option"
  UpdateExpression :: string
  ExpressionAttributeNames :: "(string \<times> string) list"
  ExpressionAttributeValues :: "attr_map option"

text \<open>
  The DynamoDB client and the context, as the environment of the writer: the answer to
  the call made at time \<open>t\<close> (the number of client calls and waits so far).
  \<open>BatchWriteItem\<close> answers an error or the \<open>UnprocessedItems\<close> of its output;
  \<open>rand_Int64N t n\<close> is the jitter drawn for a positive \<open>n\<close>; \<open>timer_fires t d\<close> says
  whether \<open>time.After d\<close> fires before \<open>ctx.Done()\<close>.
\<close>

record dynamodb_client =
  BatchWriteItem :: "nat \<Rightarrow> RequestItems \<Rightarrow> error + RequestItems"
  UpdateItem :: "nat \<Rightarrow> UpdateItemInput \<Rightarrow> error option"
  rand_Int64N :: "nat \<Rightarrow> 64 word \<Rightarrow> 64 word"
  timer_fires :: "nat \<Rightarrow> 64 word \<Rightarrow> bool"

record DynamoDBWriter =
  tableName :: string
  batchSize :: int

text \<open>
  What the writer does to the world: the calls it issued, in order.  \<open>sub_batches\<close>
  records each slice \<open>batch := ops[i:end]\<close> that \<open>WriteBatch\<close> takes.
\<close>

record writer_state =
  wclock :: nat
  batch_calls :: "RequestItems list"
  update_calls :: "UpdateItemInput list"
  sub_batches :: "Operation list list"

text \<open>
  A call of the writer returns an error value (\<open>nil\<close> is \<open>None\<close>) or panics.  The
  retry loops take fuel, the number of iterations that are observed: \<open>Running\<close> says
  that the loop has not ended when the fuel is used up, and the state then holds the
  calls made until then.
\<close>

datatype outcome = Return "error option" | Panic string | Running

definition isThrottlingError :: "error \<Rightarrow> bool" where
  "isThrottlingError err = (errors_As_throughput err \<or> errors_As_requestLimit err)"

text \<open>
  \<open>time.Duration\<close> is an \<open>int64\<close> of nanoseconds: products wrap around, a shift by
  64 or more gives 0, comparisons are signed.  \<open>rand.Int64N n\<close> panics unless
  \<open>0 < n\<close>.
\<close>

definition Millisecond :: "64 word" where
  "Millisecond = 1000000"

definition Second :: "64 word" where
  "Second = 1000000000"

definition backoff_delay :: "nat \<Rightarrow> 64 word" where
  "backoff_delay attempt =
     (let base = 100 * Millisecond;
          maxDelay = 30 * Second;
          delay = base * push_bit attempt 1
      in if sint maxDelay < sint delay then maxDelay else delay)"

datatype wait = Waited | WaitCancelled | WaitPanic

definition backoffWait :: "dynamodb_client \<Rightarrow> nat \<Rightarrow> nat \<Rightarrow> wait" where
  "backoffWait cl t attempt =
     (let delay = backoff_delay attempt in
      if sint delay \<le> 0 then WaitPanic
      else (let jitter = rand_Int64N cl t delay;
                delay' = delay + jitter
            in if timer_fires cl t delay' then Waited else WaitCancelled))"

definition writer_maxRetries :: nat where
  "writer_maxRetries = 5"

definition wtick :: "writer_state \<Rightarrow> writer_state" where
  "wtick st = st\<lparr>wclock := wclock st + 1\<rparr>"

text \<open>The retry loop of \<open>WriteBatch\<close> around \<open>BatchWriteItem\<close>.\<close>

fun batch_retry ::
  "nat \<Rightarrow> dynamodb_client \<Rightarrow> RequestItems \<Rightarrow> nat \<Rightarrow> writer_state \<Rightarrow>
   writer_state \<times> outcome" where
  "batch_retry 0 cl input attempt st = (st, Running)"
| "batch_retry (Suc fuel) cl input attempt st =
     (let st1 = wtick (st\<lparr>batch_calls := batch_calls st @ [input]\<rparr>) in
      case BatchWriteItem cl (wclock st) input of
        Inl err \<Rightarrow>
          (if isThrottlingError err then
             (case backoffWait cl (wclock st1) attempt of
                WaitPanic \<Rightarrow> (wtick st1, Panic ''invalid argument to Int64N'')
              | WaitCancelled \<Rightarrow> (wtick st1, Return (Some ContextErr))
              | Waited \<Rightarrow> batch_retry fuel cl input (attempt + 1) (wtick st1))
           else if attempt < writer_maxRetries then
             (case backoffWait cl (wclock st1) attempt of
                WaitPanic \<Rightarrow> (wtick st1, Panic ''invalid argument to Int64N'')
              | WaitCancelled \<Rightarrow> (wtick st1, Return (Some ContextErr))
              | Waited \<Rightarrow> batch_retry fuel cl input (attempt + 1) (wtick st1))
           else (st1, Return (Some (Wrapped ''failed to write batch after 5 retries: '' err []))))
      | Inr unprocessed \<Rightarrow>
          (if 0 < length unprocessed then
             (case backoffWait cl (wclock st1) attempt of
                WaitPanic \<Rightarrow> (wtick st1, Panic ''invalid argument to Int64N'')
              | WaitCancelled \<Rightarrow> (wtick st1, Return (Some ContextErr))
              | Waited \<Rightarrow> batch_retry fuel cl unprocessed (attempt + 1) (wtick st1))
           else (st1, Return None)))"

text \<open>The retry loop of \<open>updateItem\<close> around \<open>UpdateItem\<close>.\<close>

fun update_retry ::
  "nat \<Rightarrow> dynamodb_client \<Rightarrow> UpdateItemInput \<Rightarrow> nat \<Rightarrow> writer_state \<Rightarrow>
   writer_state \<times> outcome" where
  "update_retry 0 cl input attempt st = (st, Running)"
| "update_retry (Suc fuel) cl input attempt st =
     (let st1 = wtick (st\<lparr>update_calls := update_calls st @ [input]\<rparr>) in
      case UpdateItem cl (wclock st) input of
        Some err \<Rightarrow>
          (if isThrottlingError err then
             (case backoffWait cl (wclock st1) attempt of
                WaitPanic \<Rightarrow> (wtick st1, Panic ''invalid argument to Int64N'')
              | WaitCancelled \<Rightarrow> (wtick st1, Return (Some ContextErr))
              | Waited \<Rightarrow> update_retry fuel cl input (attempt + 1) (wtick st1))
           else if attempt < writer_maxRetries then
             (case backoffWait cl (wclock st1) attempt of
                WaitPanic \<Rightarrow> (wtick st1, Panic ''invalid argument to Int64N'')
              | WaitCancelled \<Rightarrow> (wtick st1, Return (Some ContextErr))
              | Waited \<Rightarrow> update_retry fuel cl input (attempt + 1) (wtick st1))
           else (st1, Return (Some (Wrapped ''failed to update item after 5 retries: '' err []))))
      | None \<Rightarrow> (st1, Return None))"

text \<open>A map that may be \<open>nil\<close>, as \<open>range\<close> and lookup see it.\<close>

definition entries :: "attr_map option \<Rightarrow> attr_map" where
  "entries m = (case m of None \<Rightarrow> [] | Some al \<Rightarrow> al)"

text \<open>
  The first loop of \<open>updateItem\<close>, over \<open>op.NewImage\<close>, with the variables it
  updates: \<open>setExpr\<close>, \<open>values\<close>, \<open>names\<close>, \<open>modifiedAttrs\<close>.
\<close>

fun set_loop ::
  "attr_map \<Rightarrow> attr_map \<Rightarrow>
   string list \<times> attr_map \<times> (string \<times> string) list \<times> (string \<Rightarrow> bool) \<Rightarrow>
   string list \<times> attr_map \<times> (string \<times> string) list \<times> (string \<Rightarrow> bool)" where
  "set_loop [] keys acc = acc"
| "set_loop ((k, v) # rest) keys (setExpr, values, names, modifiedAttrs) =
     (if map_of keys k \<noteq> None then set_loop rest keys (setExpr, values, names, modifiedAttrs)
      else set_loop rest keys
             (setExpr @ [''#'' @ k @ '' = :'' @ k],
              AList.update ('':'' @ k) v values,
              AList.update (''#'' @ k) k names,
              modifiedAttrs(k := True)))"

text \<open>The second loop, over \<open>op.OldImage\<close>, updating \<open>removeExpr\<close> and \<open>names\<close>.\<close>

fun remove_loop ::
  "attr_map \<Rightarrow> attr_map \<Rightarrow> (string \<Rightarrow> bool) \<Rightarrow>
   string list \<times> (string \<times> string) list \<Rightarrow> string list \<times> (string \<times> string) list" where
  "remove_loop [] keys modifiedAttrs acc = acc"
| "remove_loop ((k, v) # rest) keys modifiedAttrs (removeExpr, names) =
     (if map_of keys k \<noteq> None then remove_loop rest keys modifiedAttrs (removeExpr, names)
      else if \<not> modifiedAttrs k then
        remove_loop rest keys modifiedAttrs
          (removeExpr @ [''#'' @ k], AList.update (''#'' @ k) k names)
      else remove_loop rest keys modifiedAttrs (removeExpr, names))"

fun strings_Join :: "string list \<Rightarrow> string \<Rightarrow> string" where
  "strings_Join [] sep = []"
| "strings_Join [x] sep = x"
| "strings_Join (x # y # xs) sep = x @ sep @ strings_Join (y # xs) sep"

definition update_expression :: "string list \<Rightarrow> string list \<Rightarrow> string" where
  "update_expression setExpr removeExpr =
     (let updateExpr = (if setExpr \<noteq> [] then ''SET '' @ strings_Join setExpr '', '' else [])
      in if removeExpr \<noteq> [] then
           (if updateExpr \<noteq> [] then updateExpr @ '' '' else updateExpr) @
           ''REMOVE '' @ strings_Join removeExpr '', ''
         else updateExpr)"

definition updateItem ::
  "nat \<Rightarrow> dynamodb_client \<Rightarrow> DynamoDBWriter \<Rightarrow> Operation \<Rightarrow> writer_state \<Rightarrow>
   writer_state \<times> outcome" where
  "updateItem fuel cl w op st =
     (case set_loop (entries (NewImage op)) (entries (Keys op)) ([], [], [], \<lambda>k. False) of
        (setExpr, values, names0, modifiedAttrs) \<Rightarrow>
      case remove_loop (entries (OldImage op)) (entries (Keys op)) modifiedAttrs ([], names0) of
        (removeExpr, names) \<Rightarrow>
          if setExpr = [] \<and> removeExpr = [] then (st, Return None)
          else
            (let input = \<lparr>TableName = tableName w,
                          UpdateItemInput_Key = Keys op,
                          UpdateExpression = update_expression setExpr removeExpr,
                          ExpressionAttributeNames = names,
                          ExpressionAttributeValues = (if values \<noteq> [] then Some values else None)\<rparr>
             in update_retry fuel cl input 0 st))"

text \<open>
  The loop of \<open>WriteBatch\<close> over one sub-batch: \<open>Inr requests\<close> when it runs to its
  end, \<open>Inl out\<close> when \<open>WriteBatch\<close> returns from inside it.
\<close>

fun build_requests ::
  "nat \<Rightarrow> dynamodb_client \<Rightarrow> DynamoDBWriter \<Rightarrow> Operation list \<Rightarrow> WriteRequest list \<Rightarrow>
   writer_state \<Rightarrow> writer_state \<times> (outcome + WriteRequest list)" where
  "build_requests fuel cl w [] requests st = (st, Inr requests)"
| "build_requests fuel cl w (op # ops) requests st =
     (case Type op of
        OpPut \<Rightarrow> build_requests fuel cl w ops (requests @ [PutRequest (NewImage op)]) st
      | OpDelete \<Rightarrow> build_requests fuel cl w ops (requests @ [DeleteRequest (Keys op)]) st
      | OpUpdate \<Rightarrow>
          (case updateItem fuel cl w op st of
             (st', Return None) \<Rightarrow> build_requests fuel cl w ops requests st'
           | (st', Return (Some err)) \<Rightarrow>
               (st', Inl (Return (Some (Wrapped ''failed to update item: '' err []))))
           | (st', Panic msg) \<Rightarrow> (st', Inl (Panic msg))
           | (st', Running) \<Rightarrow> (st', Inl Running)))"

text \<open>
  The loop \<open>for i := 0; i < len(ops); i += w.batchSize\<close>.  With a batch size of 0 it
  never ends; with a negative one the slice expression panics.
\<close>

function WriteBatch_loop ::
  "nat \<Rightarrow> dynamodb_client \<Rightarrow> DynamoDBWriter \<Rightarrow> Operation list \<Rightarrow> nat \<Rightarrow> writer_state \<Rightarrow>
   writer_state \<times> outcome" where
  "WriteBatch_loop fuel cl w ops i st =
     (if i < length ops then
        (if batchSize w = 0 then (st, Running)
         else if batchSize w < 0 then (st, Panic ''slice bounds out of range'')
         else
           (let end' = (if length ops < i + nat (batchSize w) then length ops
                        else i + nat (batchSize w));
                ops_batch = take (end' - i) (drop i ops);
                st1 = st\<lparr>sub_batches := sub_batches st @ [ops_batch]\<rparr>
            in case build_requests fuel cl w ops_batch [] st1 of
                 (st2, Inl out) \<Rightarrow> (st2, out)
               | (st2, Inr requests) \<Rightarrow>
                   if length requests = 0 then
                     WriteBatch_loop fuel cl w ops (i + nat (batchSize w)) st2
                   else
                     (case batch_retry fuel cl [(tableName w, requests)] 0 st2 of
                        (st3, Return None) \<Rightarrow>
                          WriteBatch_loop fuel cl w ops (i + nat (batchSize w)) st3
                      | (st3, out) \<Rightarrow> (st3, out))))
      else (st, Return None))"
  by pat_completeness auto
termination
  by (relation "measure (\<lambda>(fuel, cl, w, ops, i, st). length ops - i)") auto

definition WriteBatch ::
  "nat \<Rightarrow> dynamodb_client \<Rightarrow> DynamoDBWriter \<Rightarrow> Operation list \<Rightarrow> writer_state \<Rightarrow>
   writer_state \<times> outcome" where
  "WriteBatch fuel cl w ops st =
     (if length ops = 0 then (st, Return None) else WriteBatch_loop fuel cl w ops 0 st)"

text \<open>The number of requests of a \<open>BatchWriteItem\<close> call, over all its tables.\<close>

definition request_count :: "RequestItems \<Rightarrow> nat" where
  "request_count items = sum_list (map (\<lambda>(table, requests). length requests) items)"

section \<open>Package manifest: checksum verification\<close>

record Summary =
  S3Bucket :: string
  DataFiles :: "FileMeta list"

text \<open>
  The S3 client as environment: \<open>HeadObject\<close> answers an error or the response's
  \<open>ETag\<close> pointer (\<open>None\<close> is \<open>nil\<close>), \<open>GetObject\<close> an error or the body.
\<close>

record s3_client =
  HeadObject :: "nat \<Rightarrow> string \<Rightarrow> string \<Rightarrow> error + string option"
  GetObject :: "nat \<Rightarrow> string \<Rightarrow> string \<Rightarrow> error + string"

record s3_state =
  s3clock :: nat
  head_calls :: "(string \<times> string) list"

text \<open>\<open>strings.Trim(s, cutset)\<close>: all leading and trailing characters of the cutset go.\<close>

definition strings_Trim :: "string \<Rightarrow> string \<Rightarrow> string" where
  "strings_Trim s cutset =
     rev (dropWhile (\<lambda>c. c \<in> set cutset) (rev (dropWhile (\<lambda>c. c \<in> set cutset) s)))"

text \<open>\<open>fmt.Sprintf("%x", bytes)\<close>: two lower-case hexadecimal digits per byte.\<close>

definition hex_digit :: "nat \<Rightarrow> char" where
  "hex_digit n = ''0123456789abcdef'' ! (n mod 16)"

definition Sprintf_x :: "8 word list \<Rightarrow> string" where
  "Sprintf_x bs = concat (map (\<lambda>b. [hex_digit (unat b div 16), hex_digit (unat b mod 16)]) bs)"

text \<open>
  \<open>base64.StdEncoding.DecodeString\<close>: the standard alphabet with \<open>=\<close> padding;
  carriage returns and line feeds are skipped, any other input outside the encoding is
  a \<open>CorruptInputError\<close>.
\<close>

fun index_of :: "'a \<Rightarrow> 'a list \<Rightarrow> nat option" where
  "index_of x [] = None"
| "index_of x (y # ys) = (if x = y then Some 0 else map_option Suc (index_of x ys))"

definition b64_value :: "char \<Rightarrow> nat option" where
  "b64_value c =
     index_of c ''ABCDEFGHIJKLMNOPQRSTUVWXYZabcdefghijklmnopqrstuvwxyz0123456789+/''"

fun decode_quanta :: "string \<Rightarrow> error + 8 word list" where
  "decode_quanta [] = Inr []"
| "decode_quanta [a, b, c, d] =
     (case (b64_value a, b64_value b) of
        (Some x, Some y) \<Rightarrow>
          (if c = CHR ''='' \<and> d = CHR ''='' then Inr [of_nat (x * 4 + y div 16)]
           else (case b64_value c of
                   None \<Rightarrow> Inl CorruptInputError
                 | Some z \<Rightarrow>
                     (if d = CHR ''='' then
                        Inr [of_nat (x * 4 + y div 16), of_nat ((y mod 16) * 16 + z div 4)]
                      else (case b64_value d of
                              None \<Rightarrow> Inl CorruptInputError
                            | Some u \<Rightarrow>
                                Inr [of_nat (x * 4 + y div 16),
                                     of_nat ((y mod 16) * 16 + z div 4),
                                     of_nat ((z mod 4) * 64 + u)]))))
      | _ \<Rightarrow> Inl CorruptInputError)"
| "decode_quanta (a # b # c # d # rest) =
     (case (b64_value a, b64_value b, b64_value c, b64_value d) of
        (Some x, Some y, Some z, Some u) \<Rightarrow>
          (case decode_quanta rest of
             Inl err \<Rightarrow> Inl err
           | Inr bs \<Rightarrow>
               Inr (of_nat (x * 4 + y div 16) # of_nat ((y mod 16) * 16 + z div 4) #
                    of_nat ((z mod 4) * 64 + u) # bs))
      | _ \<Rightarrow> Inl CorruptInputError)"
| "decode_quanta _ = Inl CorruptInputError"

definition base64_DecodeString :: "string \<Rightarrow> error + 8 word list" where
  "base64_DecodeString s = decode_quanta (filter (\<lambda>c. c \<noteq> CHR 0x0D \<and> c \<noteq> CHR 0x0A) s)"

text \<open>The loop of \<open>VerifyChecksums\<close> over \<open>summary.DataFiles\<close>.\<close>

fun verify_loop :: "s3_client \<Rightarrow> string \<Rightarrow> FileMeta list \<Rightarrow> s3_state \<Rightarrow> s3_state \<times> error option" where
  "verify_loop cl bkt [] st = (st, None)"
| "verify_loop cl bkt (file # files) st =
     (let st1 = st\<lparr>s3clock := s3clock st + 1, head_calls := head_calls st @ [(bkt, Key file)]\<rparr> in
      case HeadObject cl (s3clock st) bkt (Key file) of
        Inl err \<Rightarrow>
          (st1, Some (Wrapped (''failed to get metadata for data file '' @ Key file @ '': '') err []))
      | Inr None \<Rightarrow> (st1, Some (ErrorString (''ETag is nil for data file '' @ Key file)))
      | Inr (Some respETag) \<Rightarrow>
          (let etag = strings_Trim respETag [CHR 0x22] in
           case base64_DecodeString (MD5Base64 file) of
             Inl err \<Rightarrow>
               (st1, Some (Wrapped (''failed to decode MD5 Base64 for data file '' @ Key file @ '': '')
                             err []))
           | Inr md5Bytes \<Rightarrow>
               (let expectedMD5Hex = Sprintf_x md5Bytes in
                if etag \<noteq> expectedMD5Hex then
                  (let quotedExpectedMD5 = [CHR 0x22] @ expectedMD5Hex @ [CHR 0x22] in
                   if respETag \<noteq> quotedExpectedMD5 then
                     (st1, Some (ErrorString (''checksum mismatch for data file '' @ Key file @
                                              '': expected '' @ expectedMD5Hex @ '', got '' @ etag)))
                   else verify_loop cl bkt files st1)
                else verify_loop cl bkt files st1)))"

definition VerifyChecksums :: "s3_client \<Rightarrow> Summary \<Rightarrow> s3_state \<Rightarrow> s3_state \<times> error option" where
  "VerifyChecksums cl summary st =
     (if S3Bucket summary = [] then (st, Some (ErrorString ''no S3 bucket specified in summary''))
      else verify_loop cl (S3Bucket summary) (DataFiles summary) st)"

section \<open>Package checkpoint: loading\<close>

text \<open>
  The JSON decoding of a checkpoint is the library's; it is a parameter.  The file
  system answers a read with the contents or with an errno, which \<open>os.ReadFile\<close>
  returns inside a \<open>*PathError\<close>.
\<close>

record S3Store =
  store_bucket :: string
  store_key :: string

definition S3Store_Load ::
  "s3_client \<Rightarrow> (string \<Rightarrow> error + State) \<Rightarrow> S3Store \<Rightarrow> nat \<Rightarrow> error + State" where
  "S3Store_Load cl json_Decode s t =
     (case GetObject cl t (store_bucket s) (store_key s) of
        Inl err \<Rightarrow>
          if errors_As_NoSuchKey err then Inr State_zero
          else if errors_As_NotFound err then Inr State_zero
          else Inl (Wrapped ''failed to get checkpoint: '' err [])
      | Inr body \<Rightarrow>
          (case json_Decode body of
             Inl err \<Rightarrow> Inl (Wrapped ''failed to decode checkpoint: '' err [])
           | Inr state \<Rightarrow> Inr state))"

record FileStore =
  store_path :: string

definition os_ReadFile :: "(string \<Rightarrow> errno + string) \<Rightarrow> string \<Rightarrow> error + string" where
  "os_ReadFile fs name =
     (case fs name of Inl n \<Rightarrow> Inl (PathError ''open'' name n) | Inr data \<Rightarrow> Inr data)"

definition FileStore_Load ::
  "(string \<Rightarrow> errno + string) \<Rightarrow> (string \<Rightarrow> error + State) \<Rightarrow> FileStore \<Rightarrow> error + State" where
  "FileStore_Load fs json_Unmarshal_State f =
     (case os_ReadFile fs (store_path f) of
        Inl err \<Rightarrow>
          if os_IsNotExist err then Inr State_zero
          else Inl (Wrapped ''failed to read checkpoint file: '' err [])
      | Inr data \<Rightarrow>
          (case json_Unmarshal_State data of
             Inl err \<Rightarrow> Inl (Wrapped ''failed to decode checkpoint: '' err [])
           | Inr state \<Rightarrow> Inr state))"

section \<open>The decoding table of the specification\<close>



section \<open>Concrete inputs\<close>

text \<open>
  Four lines of a data file and what the JSON library makes of them: a FULL-export
  line, an INCREMENTAL line with both images, a line without images, and a line that is
  not JSON.
\<close>

definition full_line :: string where
  \<open>full_line = ''{"Item":{"pk":{"S":"1"},"n":{"N":"7"}}}''\<close>

definition update_line :: string where
  \<open>update_line =
     ''{"Keys":{"pk":{"S":"1"}},"NewImage":{"pk":{"S":"1"},"a":{"N":"2"}},"OldImage":{"pk":{"S":"1"},"b":{"N":"3"}}}''\<close>

definition bogus_line :: string where
  \<open>bogus_line = ''{"bogus":true}''\<close>

definition example_lib :: json_lib where
  \<open>example_lib =
     \<lparr>json_Unmarshal = (\<lambda>line.
        if line = full_line then Inr [(''Item'', ''{"pk":{"S":"1"},"n":{"N":"7"}}'')]
        else if line = update_line then
          Inr [(''Keys'', ''{"pk":{"S":"1"}}''),
               (''NewImage'', ''{"pk":{"S":"1"},"a":{"N":"2"}}''),
               (''OldImage'', ''{"pk":{"S":"1"},"b":{"N":"3"}}'')]
        else if line = bogus_line then Inr [(''bogus'', ''true'')]
        else Inl (ErrorString ''invalid character'')),
      UnmarshalMapJSON = (\<lambda>r.
        if r = ''{"pk":{"S":"1"},"n":{"N":"7"}}'' then
          Inr (Some [(''pk'', AttributeValueMemberS ''1''), (''n'', AttributeValueMemberN ''7'')])
        else if r = ''{"pk":{"S":"1"}}'' then Inr (Some [(''pk'', AttributeValueMemberS ''1'')])
        else if r = ''{"pk":{"S":"1"},"a":{"N":"2"}}'' then
          Inr (Some [(''pk'', AttributeValueMemberS ''1''), (''a'', AttributeValueMemberN ''2'')])
        else if r = ''{"pk":{"S":"1"},"b":{"N":"3"}}'' then
          Inr (Some [(''pk'', AttributeValueMemberS ''1''), (''b'', AttributeValueMemberN ''3'')])
        else Inl (ErrorString ''unexpected token''))\<rparr>\<close>

text \<open>
  A worker's surroundings: one data file of three lines, the second without images; a
  writer and a checkpoint store that always succeed; a context that is never cancelled.
  In \<open>resumed_collaborators\<close> the file has valid lines only and the store holds a
  checkpoint inside that file.
\<close>

definition example_file :: FileMeta where
  "example_file =
     \<lparr>Key = ''data/f1.json.gz'', ETag = ''d41d8cd98f00b204e9800998ecf8427e'',
      MD5Base64 = ''1B2M2Y8AsgTpgAmY7PhCfg=='', ItemCount = 3\<rparr>"

definition example_cfg :: Config where
  "example_cfg = \<lparr>BatchSize = 2, exportBucketName = ''export-bucket''\<rparr>"

definition example_collaborators :: collaborators where
  "example_collaborators =
     \<lparr>parser_Decode = Decode example_lib,
      streamer_Stream = (\<lambda>t bkt k off. ([(full_line, 40), (bogus_line, 55), (full_line, 95)], None)),
      writer_WriteBatch = (\<lambda>t ops. None),
      store_Load = (\<lambda>t. Inr State_zero),
      store_Save = (\<lambda>t s. None),
      ctx_Done = (\<lambda>t. False)\<rparr>"

definition resumed_collaborators :: collaborators where
  "resumed_collaborators =
     example_collaborators
       \<lparr>streamer_Stream := (\<lambda>t bkt k off. ([(update_line, 150), (full_line, 190), (full_line, 230)], None)),
        store_Load := (\<lambda>t. Inr \<lparr>ExportID = ''data/f1.json.gz'', LastFile = ''data/f1.json.gz'',
                                LastByteOffset = 95\<rparr>)\<rparr>"

definition worker_state_zero :: worker_state where
  "worker_state_zero =
     \<lparr>clock = 0,
      metrics = \<lparr>recordsProcessed = 0, batchesWritten = 0, errors = 0, corruptCount = 0\<rparr>,
      status = \<lparr>LastError = None, CurrentFile = [], ItemsWritten = 0, BatchesCount = 0\<rparr>,
      batch = [], streamed = [], written = [], saved = []\<rparr>"

section \<open>Checksum comparison, as the specification words it\<close>

text \<open>
  The specification's sentence has the checksum compared case-insensitively:
  \<open>equal_fold\<close> compares two strings up to the case of the ASCII letters.
\<close>

definition to_lower :: "char \<Rightarrow> char" where
  "to_lower c =
     (if (65::nat) \<le> of_char c \<and> of_char c \<le> (90::nat) then char_of (of_char c + (32::nat)) else c)"

definition equal_fold :: "string \<Rightarrow> string \<Rightarrow> bool" where
  "equal_fold a b = (map to_lower a = map to_lower b)"

text \<open>
  What the code compares: \<open>etag_matches cl t bkt fm\<close> says that the metadata fetch
  made at time \<open>t\<close> for the file answers an ETag which, stripped of its quotes, is exactly
  the lower-case hexadecimal text of the file's Base64 \<open>md5Checksum\<close>.
\<close>

definition etag_matches :: "s3_client \<Rightarrow> nat \<Rightarrow> string \<Rightarrow> FileMeta \<Rightarrow> bool" where
  "etag_matches cl t bkt fm =
     (case HeadObject cl t bkt (Key fm) of
        Inl err \<Rightarrow> False
      | Inr None \<Rightarrow> False
      | Inr (Some respETag) \<Rightarrow>
          (case base64_DecodeString (MD5Base64 fm) of
             Inl err \<Rightarrow> False
           | Inr md5Bytes \<Rightarrow> strings_Trim respETag [CHR 0x22] = Sprintf_x md5Bytes))"

text \<open>
  An export of two files in bucket \<open>export-bucket\<close>.  The store \<open>lower_s3\<close> answers
  the ETag of the first file in lower case, \<open>upper_s3\<close> in upper case; both answer a
  different ETag for the second file.  \<open>absent_s3\<close> has no object at all, and
  \<open>absent_fs\<close> no file.
\<close>

definition second_file :: FileMeta where
  "second_file =
     \<lparr>Key = ''data/f2.json.gz'', ETag = ''900150983cd24fb0d6963f7d28e17f72'',
      MD5Base64 = ''kAFQmDzST7DWlj99KOF/cg=='', ItemCount = 5\<rparr>"

definition example_summary :: Summary where
  "example_summary = \<lparr>S3Bucket = ''export-bucket'', DataFiles = [example_file, second_file]\<rparr>"

definition lower_s3 :: s3_client where
  \<open>lower_s3 =
     \<lparr>HeadObject = (\<lambda>t bkt k.
        if k = ''data/f1.json.gz'' then Inr (Some ''"d41d8cd98f00b204e9800998ecf8427e"'')
        else Inr (Some ''"0cc175b9c0f1b6a831c399e269772661"'')),
      GetObject = (\<lambda>t bkt k. Inl (Wrapped ''operation error S3: GetObject, '' NoSuchKey []))\<rparr>\<close>

definition upper_s3 :: s3_client where
  \<open>upper_s3 =
     lower_s3\<lparr>HeadObject := (\<lambda>t bkt k. Inr (Some ''"D41D8CD98F00B204E9800998ECF8427E"''))\<rparr>\<close>

definition absent_s3 :: s3_client where
  "absent_s3 =
     \<lparr>HeadObject = (\<lambda>t bkt k. Inl (Wrapped ''operation error S3: HeadObject, '' NotFound [])),
      GetObject = (\<lambda>t bkt k. Inl (Wrapped ''operation error S3: GetObject, '' NoSuchKey []))\<rparr>"

definition absent_fs :: "string \<Rightarrow> errno + string" where
  "absent_fs name = Inl ENOENT"

definition s3_state_zero :: s3_state where
  "s3_state_zero = \<lparr>s3clock = 0, head_calls = []\<rparr>"

text \<open>
  A writer for table \<open>target\<close> with the default batch size, and three clients: one
  that accepts every call, one whose every call is throttled, one that leaves the last
  request of every batch unprocessed once.  No context is ever cancelled, and the jitter
  drawn is always 0.
\<close>

definition example_writer :: DynamoDBWriter where
  "example_writer = \<lparr>tableName = ''target'', batchSize = 25\<rparr>"

definition accepting_client :: dynamodb_client where
  "accepting_client =
     \<lparr>BatchWriteItem = (\<lambda>t items. Inr []),
      UpdateItem = (\<lambda>t input. None),
      rand_Int64N = (\<lambda>t n. 0),
      timer_fires = (\<lambda>t d. True)\<rparr>"

definition throttled_client :: dynamodb_client where
  "throttled_client =
     accepting_client
       \<lparr>BatchWriteItem := (\<lambda>t items.
          Inl (Wrapped ''operation error DynamoDB: BatchWriteItem, ''
                 ProvisionedThroughputExceededException [])),
        UpdateItem := (\<lambda>t input.
          Some (Wrapped ''operation error DynamoDB: UpdateItem, ''
                  ProvisionedThroughputExceededException []))\<rparr>"

definition put_op :: Operation where
  "put_op =
     \<lparr>Type = OpPut, Keys = None,
      NewImage = Some [(''pk'', AttributeValueMemberS ''1''), (''n'', AttributeValueMemberN ''7'')],
      OldImage = None\<rparr>"


definition writer_state_zero :: writer_state where
  "writer_state_zero = \<lparr>wclock = 0, batch_calls = [], update_calls = [], sub_batches = []\<rparr>"

text \<open>
  The service's contract for unprocessed items: what a \<open>BatchWriteItem\<close> call hands
  back is part of what that call submitted, so it never holds more requests.
\<close>

definition unprocessed_within :: "dynamodb_client \<Rightarrow> bool" where
  "unprocessed_within cl =
     (\<forall>t items u. BatchWriteItem cl t items = Inr u \<longrightarrow> request_count u \<le> request_count items)"

text \<open>A client that, on its first call only, leaves all but the first request unprocessed.\<close>

definition partial_client :: dynamodb_client where
  "partial_client =
     accepting_client
       \<lparr>BatchWriteItem := (\<lambda>t items.
          if t = 0 then Inr (map (\<lambda>(table, requests). (table, tl requests)) items) else Inr [])\<rparr>"

section \<open>The update translation, as the specification words it\<close>



text \<open>The attribute names of a map outside the keys, in the order of iteration.\<close>

definition non_key_attrs :: "attr_map \<Rightarrow> attr_map \<Rightarrow> string list" where
  "non_key_attrs keys al = filter (\<lambda>k. map_of keys k = None) (map fst al)"

definition small_writer :: DynamoDBWriter where
  "small_writer = \<lparr>tableName = ''target'', batchSize = 2\<rparr>"



section \<open>The decoder\<close>

lemma decode_member_error:
  "decode_member lib raw name upd op = Inl e \<Longrightarrow> e \<noteq> ErrCorrupt \<and> errors_Is_ErrCorrupt e"
  by (auto simp: decode_member_def split: option.splits sum.splits)

lemma Decode_error_wrapped:
  "Decode lib line = Inl e \<Longrightarrow> e \<noteq> ErrCorrupt \<and> errors_Is_ErrCorrupt e"
  unfolding Decode_def
  by (auto split: sum.splits option.splits if_splits dest: decode_member_error)


lemmas example_lines = full_line_def update_line_def bogus_line_def

lemma example_json_Unmarshal:
  \<open>json_Unmarshal example_lib full_line = Inr [(''Item'', ''{"pk":{"S":"1"},"n":{"N":"7"}}'')]\<close>
  \<open>json_Unmarshal example_lib update_line =
     Inr [(''Keys'', ''{"pk":{"S":"1"}}''),
          (''NewImage'', ''{"pk":{"S":"1"},"a":{"N":"2"}}''),
          (''OldImage'', ''{"pk":{"S":"1"},"b":{"N":"3"}}'')]\<close>
  \<open>json_Unmarshal example_lib bogus_line = Inr [(''bogus'', ''true'')]\<close>
  \<open>json_Unmarshal example_lib ''not json'' = Inl (ErrorString ''invalid character'')\<close>
  by (simp_all add: example_lib_def example_lines)

lemma example_UnmarshalMapJSON:
  \<open>UnmarshalMapJSON example_lib ''{"pk":{"S":"1"},"n":{"N":"7"}}'' =
     Inr (Some [(''pk'', AttributeValueMemberS ''1''), (''n'', AttributeValueMemberN ''7'')])\<close>
  \<open>UnmarshalMapJSON example_lib ''{"pk":{"S":"1"}}'' = Inr (Some [(''pk'', AttributeValueMemberS ''1'')])\<close>
  \<open>UnmarshalMapJSON example_lib ''{"pk":{"S":"1"},"a":{"N":"2"}}'' =
     Inr (Some [(''pk'', AttributeValueMemberS ''1''), (''a'', AttributeValueMemberN ''2'')])\<close>
  \<open>UnmarshalMapJSON example_lib ''{"pk":{"S":"1"},"b":{"N":"3"}}'' =
     Inr (Some [(''pk'', AttributeValueMemberS ''1''), (''b'', AttributeValueMemberN ''3'')])\<close>
  by (simp_all add: example_lib_def)

lemma example_Decode:
  "Decode example_lib full_line =
     Inr \<lparr>Type = OpPut, Keys = None,
          NewImage = Some [(''pk'', AttributeValueMemberS ''1''), (''n'', AttributeValueMemberN ''7'')],
          OldImage = None\<rparr>"
  "Decode example_lib update_line =
     Inr \<lparr>Type = OpUpdate, Keys = Some [(''pk'', AttributeValueMemberS ''1'')],
          NewImage = Some [(''pk'', AttributeValueMemberS ''1''), (''a'', AttributeValueMemberN ''2'')],
          OldImage = Some [(''pk'', AttributeValueMemberS ''1''), (''b'', AttributeValueMemberN ''3'')]\<rparr>"
  "Decode example_lib bogus_line = Inl (Wrapped [] ErrCorrupt '': no image data found'')"
  by (simp_all add: Decode_def example_json_Unmarshal example_UnmarshalMapJSON decode_member_def
      Operation_zero_def)




text \<open>
  C10.  For every FULL-export-shape line with \<open>Item\<close> that decodes successfully, the
  returned operation has only \<open>NewImage\<close> populated (with the parsed item): its
  \<open>Keys\<close> and \<open>OldImage\<close> are \<open>nil\<close>, and its type is \<open>PUT\<close>.
\<close>

theorem Decode_full_only_NewImage:
  "json_Unmarshal lib line = Inr raw \<Longrightarrow> map_of raw ''Item'' = Some itemRaw \<Longrightarrow>
   Decode lib line = Inr op \<Longrightarrow>
   Type op = OpPut \<and> Keys op = None \<and> OldImage op = None \<and>
   UnmarshalMapJSON lib itemRaw = Inr (NewImage op)"
  by (auto simp: Decode_def Operation_zero_def split: sum.splits)

theorem Decode_full_only_NewImage_witness:
  \<open>json_Unmarshal example_lib full_line = Inr [(''Item'', ''{"pk":{"S":"1"},"n":{"N":"7"}}'')] \<and>
   (\<exists>op. Decode example_lib full_line = Inr op \<and>
      Type op = OpPut \<and> Keys op = None \<and> OldImage op = None \<and>
      NewImage op = Some [(''pk'', AttributeValueMemberS ''1''), (''n'', AttributeValueMemberN ''7'')])\<close>
  using Decode_full_only_NewImage [OF example_json_Unmarshal(1) _ example_Decode(1)]
  by (simp add: example_json_Unmarshal example_Decode)

section \<open>The worker\<close>

declare stream_retry.simps [simp del]

lemmas worker_defs =
  worker_def worker_file_def example_collaborators_def resumed_collaborators_def example_cfg_def
  worker_state_zero_def example_file_def State_zero_def completedFileOffset_def tick_def
  Stream_def line_callback_def example_Decode writeBatch_def recordError_def RecordError_def
  RecordProcessed_def RecordBatchWritten_def RecordCorrupt_def worker_maxRetries_def
  checkpointInterval_def stream_retry.simps

lemma line_callback_Decode_error:
  "parser_Decode c = Decode lib \<Longrightarrow> Decode lib line = Inl e \<Longrightarrow>
   line_callback c cfg fm (line, off) (ws, loc) =
     ((ws\<lparr>metrics := RecordError (metrics ws)\<rparr>, loc\<lparr>currentOffset := off\<rparr>), Some e)"
  using Decode_error_wrapped [of lib line e] by (simp add: line_callback_def)

text \<open>
  C1.  The claim: for every input line on which the decoder reports a corrupt record,
  the per-line callback increments the corrupt counter and returns success, and the
  worker does not fail.  The code compares the decoder's error with \<open>ErrCorrupt\<close> by
  \<open>==\<close>, and every error of \<open>Decode\<close> wraps \<open>ErrCorrupt\<close> in a new error.  Evaluated
  on a file whose second line has no image: the worker fails after three attempts, the
  corrupt counter stays at 0 and the error counter reaches 6.
\<close>

theorem worker_fails_on_corrupt_line:
  "snd (worker example_collaborators example_cfg worker_state_zero [example_file]) =
     Some (Wrapped ''failed to process file data/f1.json.gz after 3 retries: ''
             (Wrapped [] ErrCorrupt '': no image data found'') []) \<and>
   corruptCount (metrics (fst (worker example_collaborators example_cfg worker_state_zero
                                 [example_file]))) = 0 \<and>
   errors (metrics (fst (worker example_collaborators example_cfg worker_state_zero
                           [example_file]))) = 6"
  by (simp add: worker_defs)

lemma tick_fields [simp]:
  "streamed (tick ws) = streamed ws" "saved (tick ws) = saved ws" "written (tick ws) = written ws"
  "batch (tick ws) = batch ws" "metrics (tick ws) = metrics ws" "clock (tick ws) = Suc (clock ws)"
  by (simp_all add: tick_def)

lemma recordError_fields [simp]:
  "streamed (recordError ws e) = streamed ws" "saved (recordError ws e) = saved ws"
  "written (recordError ws e) = written ws" "batch (recordError ws e) = batch ws"
  "clock (recordError ws e) = clock ws"
  by (simp_all add: recordError_def)

lemma writeBatch_streamed:
  "writeBatch c ws ops file off sc = (ws', r) \<Longrightarrow> streamed ws' = streamed ws"
  by (auto simp: writeBatch_def Let_def split: option.splits if_splits)

lemma writeBatch_saved:
  "writeBatch c ws ops file off sc = (ws', r) \<Longrightarrow>
   \<exists>new. saved ws' = saved ws @ new \<and> (\<forall>s\<in>set new. ExportID s = Key file \<and> LastFile s = Key file)"
  by (auto simp: writeBatch_def Let_def split: option.splits if_splits)

lemma line_callback_streamed:
  "line_callback c cfg file lb s = (s', r) \<Longrightarrow> streamed (fst s') = streamed (fst s)"
  by (auto simp: line_callback_def Let_def split: prod.splits sum.splits if_splits option.splits
      dest!: writeBatch_streamed)

lemma line_callback_saved:
  "line_callback c cfg file lb s = (s', r) \<Longrightarrow>
   \<exists>new. saved (fst s') = saved (fst s) @ new \<and>
     (\<forall>x\<in>set new. ExportID x = Key file \<and> LastFile x = Key file)"
  by (auto simp: line_callback_def Let_def split: prod.splits sum.splits if_splits option.splits
      dest!: writeBatch_saved)

lemma feed_lines_streamed:
  "feed_lines (line_callback c cfg file) ls s = (s', r) \<Longrightarrow> streamed (fst s') = streamed (fst s)"
proof (induction ls arbitrary: s)
  case Nil
  then show ?case by simp
next
  case (Cons l ls)
  obtain s1 r1 where cb: "line_callback c cfg file l s = (s1, r1)" by (cases "line_callback c cfg file l s")
  show ?case
  proof (cases r1)
    case None
    with Cons cb show ?thesis using line_callback_streamed [OF cb] by simp
  next
    case (Some e)
    with Cons cb show ?thesis using line_callback_streamed [OF cb] by simp
  qed
qed

lemma feed_lines_saved:
  "feed_lines (line_callback c cfg file) ls s = (s', r) \<Longrightarrow>
   \<exists>new. saved (fst s') = saved (fst s) @ new \<and>
     (\<forall>x\<in>set new. ExportID x = Key file \<and> LastFile x = Key file)"
proof (induction ls arbitrary: s)
  case Nil
  then show ?case by simp
next
  case (Cons l ls)
  obtain s1 r1 where cb: "line_callback c cfg file l s = (s1, r1)" by (cases "line_callback c cfg file l s")
  from line_callback_saved [OF cb] obtain n1 where
    n1: "saved (fst s1) = saved (fst s) @ n1" "\<forall>x\<in>set n1. ExportID x = Key file \<and> LastFile x = Key file"
    by blast
  show ?case
  proof (cases r1)
    case None
    with Cons.prems cb have "feed_lines (line_callback c cfg file) ls s1 = (s', r)" by simp
    from Cons.IH [OF this] obtain n2 where
      "saved (fst s') = saved (fst s1) @ n2" "\<forall>x\<in>set n2. ExportID x = Key file \<and> LastFile x = Key file"
      by blast
    with n1 show ?thesis by (intro exI [of _ "n1 @ n2"]) auto
  next
    case (Some e)
    with Cons.prems cb have "s' = s1" by simp
    with n1 show ?thesis by blast
  qed
qed

lemma Stream_streamed:
  "Stream c cfg file off s = (s', r) \<Longrightarrow>
   streamed (fst s') = streamed (fst s) @ [(exportBucketName cfg, Key file, off)]"
  by (auto simp: Stream_def Let_def split: prod.splits option.splits dest!: feed_lines_streamed)

lemma Stream_saved:
  "Stream c cfg file off s = (s', r) \<Longrightarrow>
   \<exists>new. saved (fst s') = saved (fst s) @ new \<and>
     (\<forall>x\<in>set new. ExportID x = Key file \<and> LastFile x = Key file)"
  by (auto simp: Stream_def Let_def split: prod.splits option.splits dest!: feed_lines_saved)

lemma stream_retry_done:
  "\<not> retry < worker_maxRetries \<Longrightarrow> stream_retry c cfg fm off retry se s = (s, Finished se)"
  by (subst stream_retry.simps) simp

lemma stream_retry_cancel:
  "retry < worker_maxRetries \<Longrightarrow> 0 < retry \<and> ctx_Done c (clock (fst s)) \<Longrightarrow>
   stream_retry c cfg fm off retry se s = ((tick (fst s), snd s), Cancelled ContextErr)"
  by (subst stream_retry.simps) simp

lemma stream_retry_step:
  assumes "retry < worker_maxRetries" and "\<not> (0 < retry \<and> ctx_Done c (clock (fst s)))"
    and "Stream c cfg fm off (if 0 < retry then tick (fst s) else fst s, snd s) = (s1, r1)"
  shows "stream_retry c cfg fm off retry se s =
     (case r1 of
        None \<Rightarrow> (s1, Finished None)
      | Some err \<Rightarrow>
          stream_retry c cfg fm off (retry + 1) (Some err) (recordError (fst s1) err, snd s1))"
  by (subst stream_retry.simps) (simp only: if_P [OF assms(1)] if_not_P [OF assms(2)] assms(3) prod.case)

lemma stream_retry_streamed:
  "stream_retry c cfg fm off retry se s = (s', out) \<Longrightarrow>
   \<exists>n. streamed (fst s') = streamed (fst s) @ replicate n (exportBucketName cfg, Key fm, off) \<and>
       (retry = 0 \<longrightarrow> 0 < n)"
proof (induction c cfg fm off retry se s arbitrary: s' out rule: stream_retry.induct)
  case (1 c cfg fm off retry se s)
  let ?x = "(exportBucketName cfg, Key fm, off)"
  show ?case
  proof (cases "retry < worker_maxRetries")
    case False
    with "1.prems" show ?thesis
      by (auto simp: stream_retry_done worker_maxRetries_def intro: exI [of _ 0])
  next
    case lt: True
    show ?thesis
    proof (cases "0 < retry \<and> ctx_Done c (clock (fst s))")
      case True
      with lt "1.prems" show ?thesis
        by (auto simp: stream_retry_cancel intro: exI [of _ 0])
    next
      case nc: False
      let ?s0 = "(if 0 < retry then tick (fst s) else fst s, snd s)"
      obtain s1 r1 where st: "Stream c cfg fm off ?s0 = (s1, r1)"
        by (cases "Stream c cfg fm off ?s0")
      from Stream_streamed [OF st] have s1: "streamed (fst s1) = streamed (fst s) @ [?x]" by simp
      note step = stream_retry_step [OF lt nc st, of se]
      show ?thesis
      proof (cases r1)
        case None
        with step "1.prems" have "s' = s1" by simp
        with s1 show ?thesis by (intro exI [of _ 1]) simp
      next
        case (Some err)
        with step "1.prems" have
          rec: "stream_retry c cfg fm off (retry + 1) (Some err) (recordError (fst s1) err, snd s1) = (s', out)"
          by simp
        from "1.IH" [OF lt nc st [symmetric] Some rec] obtain n where
          "streamed (fst s') = streamed (fst (recordError (fst s1) err, snd s1)) @ replicate n ?x"
          by blast
        with s1 show ?thesis by (intro exI [of _ "Suc n"]) (simp add: replicate_app_Cons_same)
      qed
    qed
  qed
qed

lemma stream_retry_saved:
  "stream_retry c cfg fm off retry se s = (s', out) \<Longrightarrow>
   \<exists>new. saved (fst s') = saved (fst s) @ new \<and>
     (\<forall>x\<in>set new. ExportID x = Key fm \<and> LastFile x = Key fm)"
proof (induction c cfg fm off retry se s arbitrary: s' out rule: stream_retry.induct)
  case (1 c cfg fm off retry se s)
  show ?case
  proof (cases "retry < worker_maxRetries")
    case False
    with "1.prems" show ?thesis by (auto simp: stream_retry_done)
  next
    case lt: True
    show ?thesis
    proof (cases "0 < retry \<and> ctx_Done c (clock (fst s))")
      case True
      with lt "1.prems" show ?thesis by (auto simp: stream_retry_cancel)
    next
      case nc: False
      let ?s0 = "(if 0 < retry then tick (fst s) else fst s, snd s)"
      obtain s1 r1 where st: "Stream c cfg fm off ?s0 = (s1, r1)"
        by (cases "Stream c cfg fm off ?s0")
      from Stream_saved [OF st] obtain n1 where
        n1: "saved (fst s1) = saved (fst s) @ n1" "\<forall>x\<in>set n1. ExportID x = Key fm \<and> LastFile x = Key fm"
        by auto
      note step = stream_retry_step [OF lt nc st, of se]
      show ?thesis
      proof (cases r1)
        case None
        with step "1.prems" have "s' = s1" by simp
        with n1 show ?thesis by blast
      next
        case (Some err)
        with step "1.prems" have
          rec: "stream_retry c cfg fm off (retry + 1) (Some err) (recordError (fst s1) err, snd s1) = (s', out)"
          by simp
        from "1.IH" [OF lt nc st [symmetric] Some rec] obtain n2 where
          "saved (fst s') = saved (fst (recordError (fst s1) err, snd s1)) @ n2"
          "\<forall>x\<in>set n2. ExportID x = Key fm \<and> LastFile x = Key fm"
          by blast
        with n1 show ?thesis by (intro exI [of _ "n1 @ n2"]) auto
      qed
    qed
  qed
qed


lemma worker_file_saved:
  assumes "worker_file c cfg ws fm = (ws', r)"
  shows "\<exists>new. saved ws' = saved ws @ new \<and>
     (\<forall>x\<in>set new. ExportID x = Key fm \<and> LastFile x = Key fm)"
proof -
  let ?ws = "ws\<lparr>status := (status ws)\<lparr>CurrentFile := Key fm\<rparr>\<rparr>"
  show ?thesis
  proof (cases "store_Load c (clock ws)")
    case (Inl err)
    with assms show ?thesis by (auto simp: worker_file_def)
  next
    case (Inr state)
    show ?thesis
    proof (cases "Key fm = LastFile state \<and> LastByteOffset state = completedFileOffset")
      case True
      with Inr assms show ?thesis by (auto simp: worker_file_def)
    next
      case False
      let ?off = "if Key fm = LastFile state then LastByteOffset state else 0"
      let ?loc = "\<lparr>currentOffset = 0, batchesSinceCheckpoint = 0\<rparr>"
      obtain ws1 loc1 out where sr: "stream_retry c cfg fm ?off 0 None (tick ?ws, ?loc) = ((ws1, loc1), out)"
        by (metis surj_pair)
      from stream_retry_saved [OF sr] obtain n1 where
        n1: "saved ws1 = saved ws @ n1" "\<forall>x\<in>set n1. ExportID x = Key fm \<and> LastFile x = Key fm"
        by auto
      show ?thesis
      proof (cases out)
        case (Cancelled e)
        with Inr False sr assms have "ws' = ws1" by (auto simp: worker_file_def Let_def)
        with n1 show ?thesis by blast
      next
        case (Finished se)
        show ?thesis
        proof (cases se)
          case (Some e)
          with Finished Inr False sr assms have "ws' = ws1" by (auto simp: worker_file_def Let_def)
          with n1 show ?thesis by blast
        next
          case None
          obtain ws2 r2 where wb: "writeBatch c ws1 (batch ws1) fm (currentOffset loc1) True = (ws2, r2)"
            by (metis surj_pair)
          from writeBatch_saved [OF wb] obtain n2 where
            n2: "saved ws2 = saved ws1 @ n2" "\<forall>x\<in>set n2. ExportID x = Key fm \<and> LastFile x = Key fm"
            by auto
          from None Finished Inr False sr assms wb n1 n2 show ?thesis
            by (auto simp: worker_file_def Let_def split: if_splits option.splits)
        qed
      qed
    qed
  qed
qed

lemma worker_file_skip:
  assumes "store_Load c (clock ws) = Inr state"
    and "Key fm = LastFile state" and "LastByteOffset state = - 1"
  shows "worker_file c cfg ws fm = (tick (ws\<lparr>status := (status ws)\<lparr>CurrentFile := Key fm\<rparr>\<rparr>), None)"
  using assms by (simp add: worker_file_def completedFileOffset_def)

lemma worker_file_streams:
  assumes "store_Load c (clock ws) = Inr state"
    and "\<not> (Key fm = LastFile state \<and> LastByteOffset state = - 1)"
    and "worker_file c cfg ws fm = (ws', r)"
  shows "\<exists>n>0. streamed ws' = streamed ws @
            replicate n (exportBucketName cfg, Key fm,
                         if Key fm = LastFile state then LastByteOffset state else 0)"
proof -
  let ?ws = "ws\<lparr>status := (status ws)\<lparr>CurrentFile := Key fm\<rparr>\<rparr>"
  let ?off = "if Key fm = LastFile state then LastByteOffset state else 0"
  let ?loc = "\<lparr>currentOffset = 0, batchesSinceCheckpoint = 0\<rparr>"
  obtain ws1 loc1 out where sr: "stream_retry c cfg fm ?off 0 None (tick ?ws, ?loc) = ((ws1, loc1), out)"
    by (metis surj_pair)
  from stream_retry_streamed [OF sr] obtain n where
    n: "streamed ws1 = streamed ws @ replicate n (exportBucketName cfg, Key fm, ?off)" "0 < n"
    by auto
  have "streamed ws' = streamed ws1"
  proof (cases out)
    case (Cancelled e)
    with assms sr show ?thesis by (auto simp: worker_file_def Let_def completedFileOffset_def)
  next
    case (Finished se)
    show ?thesis
    proof (cases se)
      case (Some e)
      with Finished assms sr show ?thesis
        by (auto simp: worker_file_def Let_def completedFileOffset_def)
    next
      case None
      obtain ws2 r2 where wb: "writeBatch c ws1 (batch ws1) fm (currentOffset loc1) True = (ws2, r2)"
        by (metis surj_pair)
      from writeBatch_streamed [OF wb] have "streamed ws2 = streamed ws1" .
      with None Finished assms sr wb show ?thesis
        by (auto simp: worker_file_def Let_def completedFileOffset_def split: if_splits option.splits)
    qed
  qed
  with n show ?thesis by auto
qed


text \<open>
  C6.  For every assigned file and loaded checkpoint state: if \<open>state.LastFile\<close> is the
  file's key and \<open>state.LastByteOffset\<close> is \<open>-1\<close>, the worker skips the file entirely
  (no stream, write or save call); else if \<open>state.LastFile\<close> is the file's key, every
  stream call for the file (there is at least one) starts at \<open>state.LastByteOffset\<close>;
  otherwise at byte offset 0.
\<close>

theorem worker_file_resume_offset:
  assumes "store_Load c (clock ws) = Inr state" and "worker_file c cfg ws fm = (ws', r)"
  shows "(Key fm = LastFile state \<and> LastByteOffset state = - 1 \<longrightarrow>
            r = None \<and> streamed ws' = streamed ws \<and> written ws' = written ws \<and>
            saved ws' = saved ws \<and> batch ws' = batch ws) \<and>
         (Key fm = LastFile state \<and> LastByteOffset state \<noteq> - 1 \<longrightarrow>
            (\<exists>n>0. streamed ws' = streamed ws @
               replicate n (exportBucketName cfg, Key fm, LastByteOffset state))) \<and>
         (Key fm \<noteq> LastFile state \<longrightarrow>
            (\<exists>n>0. streamed ws' = streamed ws @ replicate n (exportBucketName cfg, Key fm, 0)))"
proof -
  have skip: "r = None \<and> streamed ws' = streamed ws \<and> written ws' = written ws \<and>
        saved ws' = saved ws \<and> batch ws' = batch ws"
    if "Key fm = LastFile state \<and> LastByteOffset state = - 1"
    using that worker_file_skip [OF assms(1), of fm cfg] assms(2) by auto
  have resume: "\<exists>n>0. streamed ws' = streamed ws @
               replicate n (exportBucketName cfg, Key fm, LastByteOffset state)"
    if a: "Key fm = LastFile state \<and> LastByteOffset state \<noteq> - 1"
  proof -
    from a have "\<not> (Key fm = LastFile state \<and> LastByteOffset state = - 1)" by simp
    from worker_file_streams [OF assms(1) this assms(2)] a show ?thesis by simp
  qed
  have fresh: "\<exists>n>0. streamed ws' = streamed ws @ replicate n (exportBucketName cfg, Key fm, 0)"
    if a: "Key fm \<noteq> LastFile state"
  proof -
    from a have "\<not> (Key fm = LastFile state \<and> LastByteOffset state = - 1)" by simp
    from worker_file_streams [OF assms(1) this assms(2)] a show ?thesis by simp
  qed
  from skip resume fresh show ?thesis by blast
qed


theorem worker_file_resume_offset_witness:
  "streamed (fst (worker_file resumed_collaborators example_cfg worker_state_zero example_file)) =
     [(''export-bucket'', ''data/f1.json.gz'', 95)] \<and>
   streamed (fst (worker_file example_collaborators example_cfg worker_state_zero example_file)) =
     [(''export-bucket'', ''data/f1.json.gz'', 0), (''export-bucket'', ''data/f1.json.gz'', 0),
      (''export-bucket'', ''data/f1.json.gz'', 0)] \<and>
   worker_file
     (resumed_collaborators
        \<lparr>store_Load := (\<lambda>t. Inr \<lparr>ExportID = ''data/f1.json.gz'', LastFile = ''data/f1.json.gz'',
                                 LastByteOffset = - 1\<rparr>)\<rparr>)
     example_cfg worker_state_zero example_file =
     (tick (worker_state_zero
              \<lparr>status := (status worker_state_zero)\<lparr>CurrentFile := ''data/f1.json.gz''\<rparr>\<rparr>), None) \<and>
   (\<exists>n>0. streamed (fst (worker_file resumed_collaborators example_cfg worker_state_zero
                           example_file)) =
      streamed worker_state_zero @ replicate n (''export-bucket'', ''data/f1.json.gz'', 95))"
proof -
  let ?st = "\<lparr>ExportID = ''data/f1.json.gz'', LastFile = ''data/f1.json.gz'', LastByteOffset = 95\<rparr>"
  have load: "store_Load resumed_collaborators (clock worker_state_zero) = Inr ?st"
    by (simp add: resumed_collaborators_def example_collaborators_def)
  have run: "worker_file resumed_collaborators example_cfg worker_state_zero example_file =
      (fst (worker_file resumed_collaborators example_cfg worker_state_zero example_file),
       snd (worker_file resumed_collaborators example_cfg worker_state_zero example_file))"
    by simp
  from worker_file_resume_offset [OF load run]
  have "\<exists>n>0. streamed (fst (worker_file resumed_collaborators example_cfg worker_state_zero
                           example_file)) =
      streamed worker_state_zero @ replicate n (''export-bucket'', ''data/f1.json.gz'', 95)"
    by (simp add: example_file_def example_cfg_def)
  then show ?thesis by (simp add: worker_defs)
qed

lemma worker_loop_saved:
  "worker_loop c cfg ws files = (ws', r) \<Longrightarrow>
   \<exists>new. saved ws' = saved ws @ new \<and>
     (\<forall>x\<in>set new. ExportID x = LastFile x \<and> LastFile x \<in> Key ` set files)"
proof (induction files arbitrary: ws)
  case Nil
  then show ?case by simp
next
  case (Cons fm files)
  obtain ws1 r1 where wf: "worker_file c cfg ws fm = (ws1, r1)" by (metis surj_pair)
  from worker_file_saved [OF wf] obtain n1 where
    n1: "saved ws1 = saved ws @ n1" "\<forall>x\<in>set n1. ExportID x = Key fm \<and> LastFile x = Key fm"
    by auto
  show ?case
  proof (cases r1)
    case (Some e)
    with Cons.prems wf have "ws' = ws1" by simp
    with n1 show ?thesis by (intro exI [of _ n1]) auto
  next
    case None
    with Cons.prems wf have "worker_loop c cfg ws1 files = (ws', r)" by simp
    from Cons.IH [OF this] obtain n2 where
      "saved ws' = saved ws1 @ n2" "\<forall>x\<in>set n2. ExportID x = LastFile x \<and> LastFile x \<in> Key ` set files"
      by auto
    with n1 show ?thesis by (intro exI [of _ "n1 @ n2"]) auto
  qed
qed

text \<open>
  C9.  Every checkpoint state the worker saves, the periodic progress checkpoints and
  the completion sentinel alike, has its \<open>ExportID\<close> equal to its \<open>LastFile\<close>, which is
  the object key of one of the worker's data files: the export's identifier is not what
  is written.
\<close>

theorem worker_saved_ExportID:
  "worker c cfg ws files = (ws', r) \<Longrightarrow>
   \<exists>new. saved ws' = saved ws @ new \<and>
     (\<forall>x\<in>set new. ExportID x = LastFile x \<and> LastFile x \<in> Key ` set files)"
  using worker_loop_saved [of c cfg "ws\<lparr>batch := []\<rparr>" files ws' r] by (simp add: worker_def)

theorem worker_saved_ExportID_witness:
  "saved (fst (worker resumed_collaborators example_cfg worker_state_zero [example_file])) =
     [\<lparr>ExportID = ''data/f1.json.gz'', LastFile = ''data/f1.json.gz'', LastByteOffset = 230\<rparr>,
      \<lparr>ExportID = ''data/f1.json.gz'', LastFile = ''data/f1.json.gz'', LastByteOffset = - 1\<rparr>] \<and>
   (\<exists>new. saved (fst (worker resumed_collaborators example_cfg worker_state_zero [example_file])) =
        saved worker_state_zero @ new \<and>
      list_all (\<lambda>x. ExportID x = LastFile x \<and> LastFile x = ''data/f1.json.gz'') new)"
proof -
  have run: "worker resumed_collaborators example_cfg worker_state_zero [example_file] =
      (fst (worker resumed_collaborators example_cfg worker_state_zero [example_file]),
       snd (worker resumed_collaborators example_cfg worker_state_zero [example_file]))"
    by simp
  from worker_saved_ExportID [OF run]
  have "\<exists>new. saved (fst (worker resumed_collaborators example_cfg worker_state_zero [example_file])) =
        saved worker_state_zero @ new \<and>
      list_all (\<lambda>x. ExportID x = LastFile x \<and> LastFile x = ''data/f1.json.gz'') new"
    by (simp add: example_file_def list_all_iff)
  moreover have "saved (fst (worker resumed_collaborators example_cfg worker_state_zero [example_file])) =
     [\<lparr>ExportID = ''data/f1.json.gz'', LastFile = ''data/f1.json.gz'', LastByteOffset = 230\<rparr>,
      \<lparr>ExportID = ''data/f1.json.gz'', LastFile = ''data/f1.json.gz'', LastByteOffset = - 1\<rparr>]"
    by (simp add: worker_defs)
  ultimately show ?thesis by blast
qed

section \<open>Loading a checkpoint\<close>

text \<open>
  C8.  For both checkpoint backends, \<open>Load\<close> of an absent checkpoint succeeds with the
  zero state: the local-file store when the checkpoint file does not exist, the
  object-store store when the fetch fails with \<open>NoSuchKey\<close> or \<open>NotFound\<close>.
\<close>

theorem Load_absent_checkpoint:
  "(fs (store_path f) = Inl ENOENT \<longrightarrow> FileStore_Load fs dec f = Inr State_zero) \<and>
   (\<forall>err. GetObject cl t (store_bucket s) (store_key s) = Inl err \<and>
          (errors_As_NoSuchKey err \<or> errors_As_NotFound err) \<longrightarrow>
      S3Store_Load cl dec' s t = Inr State_zero)"
  by (auto simp: FileStore_Load_def os_ReadFile_def S3Store_Load_def)

theorem Load_absent_checkpoint_witness:
  "absent_fs ''/tmp/checkpoints/restore.json'' = Inl ENOENT \<and>
   FileStore_Load absent_fs (\<lambda>data. Inl (ErrorString ''unexpected end of JSON input''))
     \<lparr>store_path = ''/tmp/checkpoints/restore.json''\<rparr> = Inr State_zero \<and>
   errors_As_NoSuchKey (Wrapped ''operation error S3: GetObject, '' NoSuchKey []) \<and>
   S3Store_Load absent_s3 (\<lambda>data. Inl (ErrorString ''unexpected end of JSON input''))
     \<lparr>store_bucket = ''state-bucket'', store_key = ''checkpoints/restore.json''\<rparr> 0 =
     Inr State_zero"
  using Load_absent_checkpoint
    [of absent_fs "\<lparr>store_path = ''/tmp/checkpoints/restore.json''\<rparr>"
        "\<lambda>data. Inl (ErrorString ''unexpected end of JSON input'')"
        absent_s3 0 "\<lparr>store_bucket = ''state-bucket'', store_key = ''checkpoints/restore.json''\<rparr>"
        "\<lambda>data. Inl (ErrorString ''unexpected end of JSON input'')"]
  by (simp add: absent_fs_def absent_s3_def)

section \<open>Checksum verification\<close>

lemma hex_digit_no_quote: "hex_digit n \<noteq> CHR 0x22"
proof -
  have "n mod 16 < length ''0123456789abcdef''" by simp
  then have "hex_digit n \<in> set ''0123456789abcdef''"
    unfolding hex_digit_def by (rule nth_mem)
  then show ?thesis by auto
qed

lemma Sprintf_x_no_quote: "CHR 0x22 \<notin> set (Sprintf_x bs)"
  using hex_digit_no_quote by (auto simp: Sprintf_x_def) metis+

lemma strings_Trim_quoted:
  assumes "q \<notin> set h"
  shows "strings_Trim ([q] @ h @ [q]) [q] = h"
proof (cases h)
  case Nil
  then show ?thesis by (simp add: strings_Trim_def)
next
  case (Cons x xs)
  with assms have "dropWhile (\<lambda>c. c \<in> set [q]) (h @ [q]) = h @ [q]" by auto
  moreover from assms have "dropWhile (\<lambda>c. c \<in> set [q]) (rev h) = rev h"
    by (induction h rule: rev_induct) auto
  ultimately show ?thesis by (simp add: strings_Trim_def)
qed

lemma verify_loop_match:
  assumes "etag_matches cl (s3clock st) bkt fm"
  shows "verify_loop cl bkt (fm # fs) st =
     verify_loop cl bkt fs
       (st\<lparr>s3clock := s3clock st + 1, head_calls := head_calls st @ [(bkt, Key fm)]\<rparr>)"
  using assms by (auto simp: etag_matches_def Let_def split: sum.splits option.splits)

lemma verify_loop_mismatch:
  assumes "HeadObject cl (s3clock st) bkt (Key fm) = Inr (Some e)"
    and "base64_DecodeString (MD5Base64 fm) = Inr bs"
    and "strings_Trim e [CHR 0x22] \<noteq> Sprintf_x bs"
  shows "verify_loop cl bkt (fm # fs) st =
     (st\<lparr>s3clock := s3clock st + 1, head_calls := head_calls st @ [(bkt, Key fm)]\<rparr>,
      Some (ErrorString (''checksum mismatch for data file '' @ Key fm @ '': expected '' @
                         Sprintf_x bs @ '', got '' @ strings_Trim e [CHR 0x22])))"
proof -
  have "e \<noteq> [CHR 0x22] @ Sprintf_x bs @ [CHR 0x22]"
    using assms(3) strings_Trim_quoted [OF Sprintf_x_no_quote, of bs] by auto
  with assms show ?thesis by (simp add: Let_def)
qed

lemma verify_loop_prefix:
  "(\<forall>i<length pre. etag_matches cl (s3clock st + i) bkt (pre ! i)) \<Longrightarrow>
   verify_loop cl bkt (pre @ rest) st =
     verify_loop cl bkt rest
       (st\<lparr>s3clock := s3clock st + length pre,
           head_calls := head_calls st @ map (\<lambda>f. (bkt, Key f)) pre\<rparr>)"
proof (induction pre arbitrary: st)
  case Nil
  then show ?case by simp
next
  case (Cons fm pre)
  let ?st1 = "st\<lparr>s3clock := s3clock st + 1, head_calls := head_calls st @ [(bkt, Key fm)]\<rparr>"
  from Cons.prems have m: "etag_matches cl (s3clock st) bkt fm" by force
  from Cons.prems have "\<forall>i<length pre. etag_matches cl (s3clock ?st1 + i) bkt (pre ! i)"
    by force
  from Cons.IH [OF this] verify_loop_match [OF m, of "pre @ rest"]
  show ?case by simp
qed

lemma example_md5:
  "base64_DecodeString ''1B2M2Y8AsgTpgAmY7PhCfg=='' =
     Inr [212, 29, 140, 217, 143, 0, 178, 4, 233, 128, 9, 152, 236, 248, 66, 126]"
  "Sprintf_x [212, 29, 140, 217, 143, 0, 178, 4, 233, 128, 9, 152, 236, 248, 66, 126] =
     ''d41d8cd98f00b204e9800998ecf8427e''"
  by code_simp+

lemma second_md5:
  "base64_DecodeString ''kAFQmDzST7DWlj99KOF/cg=='' =
     Inr [144, 1, 80, 152, 60, 210, 79, 176, 214, 150, 63, 125, 40, 225, 127, 114]"
  "Sprintf_x [144, 1, 80, 152, 60, 210, 79, 176, 214, 150, 63, 125, 40, 225, 127, 114] =
     ''900150983cd24fb0d6963f7d28e17f72''"
  by code_simp+


text \<open>
  C7, as amended.  For every export summary that names a bucket, checksum verification
  fetches the data files' metadata in order, decodes each \<open>md5Checksum\<close> from Base64 to
  lower-case hexadecimal text and compares that text for exact (case-sensitive) equality
  with the storage ETag stripped of its surrounding quotes.  When every file matches it
  succeeds, having fetched every file; at the first file whose comparison mismatches it
  returns a checksum-mismatch error, and no later file is fetched.
\<close>

theorem VerifyChecksums_exact_match:
  assumes "S3Bucket summary \<noteq> []"
  shows "((\<forall>i<length (DataFiles summary).
             etag_matches cl (s3clock st + i) (S3Bucket summary) (DataFiles summary ! i)) \<longrightarrow>
          VerifyChecksums cl summary st =
            (st\<lparr>s3clock := s3clock st + length (DataFiles summary),
                head_calls := head_calls st @
                  map (\<lambda>f. (S3Bucket summary, Key f)) (DataFiles summary)\<rparr>, None)) \<and>
         (\<forall>pre fm post e bs.
            DataFiles summary = pre @ fm # post \<and>
            (\<forall>i<length pre. etag_matches cl (s3clock st + i) (S3Bucket summary) (pre ! i)) \<and>
            HeadObject cl (s3clock st + length pre) (S3Bucket summary) (Key fm) = Inr (Some e) \<and>
            base64_DecodeString (MD5Base64 fm) = Inr bs \<and>
            strings_Trim e [CHR 0x22] \<noteq> Sprintf_x bs \<longrightarrow>
          VerifyChecksums cl summary st =
            (st\<lparr>s3clock := s3clock st + length pre + 1,
                head_calls := head_calls st @
                  map (\<lambda>f. (S3Bucket summary, Key f)) (pre @ [fm])\<rparr>,
             Some (ErrorString (''checksum mismatch for data file '' @ Key fm @ '': expected '' @
                                Sprintf_x bs @ '', got '' @ strings_Trim e [CHR 0x22]))))"
proof (intro conjI allI impI)
  assume "\<forall>i<length (DataFiles summary).
             etag_matches cl (s3clock st + i) (S3Bucket summary) (DataFiles summary ! i)"
  from verify_loop_prefix [OF this, of "[]"] assms
  show "VerifyChecksums cl summary st =
            (st\<lparr>s3clock := s3clock st + length (DataFiles summary),
                head_calls := head_calls st @
                  map (\<lambda>f. (S3Bucket summary, Key f)) (DataFiles summary)\<rparr>, None)"
    by (simp add: VerifyChecksums_def)
next
  fix pre fm post e bs
  assume a: "DataFiles summary = pre @ fm # post \<and>
            (\<forall>i<length pre. etag_matches cl (s3clock st + i) (S3Bucket summary) (pre ! i)) \<and>
            HeadObject cl (s3clock st + length pre) (S3Bucket summary) (Key fm) = Inr (Some e) \<and>
            base64_DecodeString (MD5Base64 fm) = Inr bs \<and>
            strings_Trim e [CHR 0x22] \<noteq> Sprintf_x bs"
  let ?b = "S3Bucket summary"
  let ?st1 = "st\<lparr>s3clock := s3clock st + length pre,
           head_calls := head_calls st @ map (\<lambda>f. (?b, Key f)) pre\<rparr>"
  from a have pre: "\<forall>i<length pre. etag_matches cl (s3clock st + i) ?b (pre ! i)" by blast
  from a have h: "HeadObject cl (s3clock ?st1) ?b (Key fm) = Inr (Some e)" by simp
  from a have b: "base64_DecodeString (MD5Base64 fm) = Inr bs"
    and m: "strings_Trim e [CHR 0x22] \<noteq> Sprintf_x bs" by blast+
  from verify_loop_prefix [OF pre, of "fm # post"] verify_loop_mismatch [OF h b m, of post] a assms
  show "VerifyChecksums cl summary st =
            (st\<lparr>s3clock := s3clock st + length pre + 1,
                head_calls := head_calls st @
                  map (\<lambda>f. (S3Bucket summary, Key f)) (pre @ [fm])\<rparr>,
             Some (ErrorString (''checksum mismatch for data file '' @ Key fm @ '': expected '' @
                                Sprintf_x bs @ '', got '' @ strings_Trim e [CHR 0x22])))"
    by (simp add: VerifyChecksums_def)
qed


theorem VerifyChecksums_exact_match_witness:
  "VerifyChecksums lower_s3 example_summary s3_state_zero =
     (\<lparr>s3clock = 2,
       head_calls = [(''export-bucket'', ''data/f1.json.gz''), (''export-bucket'', ''data/f2.json.gz'')]\<rparr>,
      Some (ErrorString ''checksum mismatch for data file data/f2.json.gz: expected 900150983cd24fb0d6963f7d28e17f72, got 0cc175b9c0f1b6a831c399e269772661'')) \<and>
   VerifyChecksums lower_s3 (example_summary\<lparr>DataFiles := [example_file]\<rparr>) s3_state_zero =
     (\<lparr>s3clock = 1, head_calls = [(''export-bucket'', ''data/f1.json.gz'')]\<rparr>, None)"
proof -
  have m1: "etag_matches lower_s3 0 ''export-bucket'' example_file" by code_simp
  have h2: \<open>HeadObject lower_s3 1 ''export-bucket'' ''data/f2.json.gz'' =
      Inr (Some ''"0cc175b9c0f1b6a831c399e269772661"'')\<close>
    by (simp add: lower_s3_def)
  have t2: \<open>strings_Trim ''"0cc175b9c0f1b6a831c399e269772661"'' [CHR 0x22] =
      ''0cc175b9c0f1b6a831c399e269772661''\<close>
    by code_simp
  have b: "S3Bucket example_summary \<noteq> []" by (simp add: example_summary_def)
  have b': "S3Bucket (example_summary\<lparr>DataFiles := [example_file]\<rparr>) \<noteq> []"
    by (simp add: example_summary_def)
  from VerifyChecksums_exact_match [OF b, of lower_s3 s3_state_zero, THEN conjunct2, rule_format,
      of "[example_file]" second_file "[]"
         \<open>''"0cc175b9c0f1b6a831c399e269772661"''\<close>
         "[144, 1, 80, 152, 60, 210, 79, 176, 214, 150, 63, 125, 40, 225, 127, 114]"]
  have 1: "VerifyChecksums lower_s3 example_summary s3_state_zero =
     (\<lparr>s3clock = 2,
       head_calls = [(''export-bucket'', ''data/f1.json.gz''), (''export-bucket'', ''data/f2.json.gz'')]\<rparr>,
      Some (ErrorString ''checksum mismatch for data file data/f2.json.gz: expected 900150983cd24fb0d6963f7d28e17f72, got 0cc175b9c0f1b6a831c399e269772661''))"
    using m1 h2 t2
    by (simp add: example_summary_def second_file_def s3_state_zero_def second_md5
        example_file_def)
  from VerifyChecksums_exact_match [OF b', of lower_s3 s3_state_zero, THEN conjunct1]
  have 2: "VerifyChecksums lower_s3 (example_summary\<lparr>DataFiles := [example_file]\<rparr>) s3_state_zero =
     (\<lparr>s3clock = 1, head_calls = [(''export-bucket'', ''data/f1.json.gz'')]\<rparr>, None)"
    using m1 by (simp add: example_summary_def s3_state_zero_def example_file_def)
  from 1 2 show ?thesis by blast
qed

text \<open>
  C7, as the specification states it, compares case-insensitively.  An ETag in upper
  case equals the expected hexadecimal text up to case, and verification fails on it.
\<close>

theorem VerifyChecksums_case_sensitive_counterexample:
  \<open>HeadObject upper_s3 0 ''export-bucket'' ''data/f1.json.gz'' =
     Inr (Some ''"D41D8CD98F00B204E9800998ECF8427E"'') \<and>
   map_sum id Sprintf_x (base64_DecodeString (MD5Base64 example_file)) =
     Inr ''d41d8cd98f00b204e9800998ecf8427e'' \<and>
   equal_fold ''d41d8cd98f00b204e9800998ecf8427e''
     (strings_Trim ''"D41D8CD98F00B204E9800998ECF8427E"'' [CHR 0x22]) \<and>
   VerifyChecksums upper_s3 example_summary s3_state_zero =
     (\<lparr>s3clock = 1, head_calls = [(''export-bucket'', ''data/f1.json.gz'')]\<rparr>,
      Some (ErrorString ''checksum mismatch for data file data/f1.json.gz: expected d41d8cd98f00b204e9800998ecf8427e, got D41D8CD98F00B204E9800998ECF8427E''))\<close>
  by code_simp

section \<open>The writer's retries\<close>

text \<open>
  C3.  The claim: a throttling error is retried with backoff for as long as the context
  is not cancelled.  The delay \<open>base * 2^attempt\<close> is computed in \<open>int64\<close> nanoseconds
  before it is capped: at attempt 37 the product wraps to a negative number, the cap
  does not apply, and \<open>rand.Int64N\<close> panics on it.  Evaluated with a client whose every
  call is throttled and a context that is never cancelled: after 37 calls the writer is
  still retrying, and the wait after the 38th call panics.
\<close>

theorem throttled_write_panics:
  "snd (WriteBatch 38 throttled_client example_writer [put_op] writer_state_zero) =
     Panic ''invalid argument to Int64N'' \<and>
   length (batch_calls (fst (WriteBatch 38 throttled_client example_writer [put_op]
                               writer_state_zero))) = 38 \<and>
   sint (backoff_delay 37) < 0 \<and>
   snd (WriteBatch 37 throttled_client example_writer [put_op] writer_state_zero) = Running"
  by code_simp

text \<open>
  What the retry loops do keep.  Below attempt 37 the delay is positive, so a wait ends
  by the timer or by cancellation.  An error other than throttling, met on every call,
  is retried five times and then returned inside the writer's own error, after six
  calls.  And no throttling error is ever returned: what a retry loop returns is
  \<open>nil\<close>, the context's error, or its own error around an error that is not
  throttling.
\<close>

lemma wtick_fields [simp]:
  "batch_calls (wtick st) = batch_calls st" "update_calls (wtick st) = update_calls st"
  "sub_batches (wtick st) = sub_batches st" "wclock (wtick st) = Suc (wclock st)"
  by (simp_all add: wtick_def)

lemma backoff_delay_pos: "\<forall>a<37. 0 < sint (backoff_delay a)"
  by (simp add: All_less_Suc backoff_delay_def Millisecond_def Second_def eval_nat_numeral
      del: push_bit_Suc)

lemma backoffWait_Waited:
  "attempt < 37 \<Longrightarrow> \<forall>d. timer_fires cl t d \<Longrightarrow> backoffWait cl t attempt = Waited"
  using backoff_delay_pos by (auto simp: backoffWait_def Let_def)

lemma batch_retry_other_error:
  assumes err: "\<forall>t items. BatchWriteItem cl t items = Inl e" and nt: "\<not> isThrottlingError e"
    and tf: "\<forall>t d. timer_fires cl t d"
  shows "attempt \<le> 5 \<Longrightarrow> 5 - attempt < fuel \<Longrightarrow>
     snd (batch_retry fuel cl input attempt st) =
       Return (Some (Wrapped ''failed to write batch after 5 retries: '' e [])) \<and>
     batch_calls (fst (batch_retry fuel cl input attempt st)) =
       batch_calls st @ replicate (6 - attempt) input"
proof (induction fuel arbitrary: attempt st)
  case 0
  then show ?case by simp
next
  case (Suc fuel)
  show ?case
  proof (cases "attempt < 5")
    case False
    with Suc.prems have "attempt = 5" by simp
    with err nt show ?thesis by (simp add: Let_def writer_maxRetries_def)
  next
    case True
    then have w: "backoffWait cl t attempt = Waited" for t
      using tf by (intro backoffWait_Waited) auto
    from True Suc.prems have *: "Suc attempt \<le> 5" "5 - Suc attempt < fuel" by auto
    from True have r: "replicate (6 - attempt) input = input # replicate (5 - attempt) input"
      by (simp add: Suc_diff_le flip: replicate_Suc)
    from Suc.IH [OF *] True err nt w show ?thesis
      by (simp add: Let_def writer_maxRetries_def r)
  qed
qed

lemma batch_retry_surfaced:
  "batch_retry fuel cl input attempt st = (st', Return (Some err)) \<Longrightarrow>
   err = ContextErr \<or>
   (\<exists>e. err = Wrapped ''failed to write batch after 5 retries: '' e [] \<and> \<not> isThrottlingError e)"
proof (induction fuel arbitrary: input attempt st)
  case 0
  then show ?case by simp
next
  case (Suc fuel)
  from Suc.prems show ?case
    by (auto simp: Let_def split: sum.splits if_splits wait.splits dest: Suc.IH)
qed

lemma update_retry_surfaced:
  "update_retry fuel cl input attempt st = (st', Return (Some err)) \<Longrightarrow>
   err = ContextErr \<or>
   (\<exists>e. err = Wrapped ''failed to update item after 5 retries: '' e [] \<and> \<not> isThrottlingError e)"
proof (induction fuel arbitrary: attempt st)
  case 0
  then show ?case by simp
next
  case (Suc fuel)
  from Suc.prems show ?case
    by (auto simp: Let_def split: option.splits if_splits wait.splits dest: Suc.IH)
qed

section \<open>The writer's batches\<close>

declare WriteBatch_loop.simps [simp del]

lemma batch_retry_Suc_cases:
  assumes "batch_retry (Suc fuel) cl input attempt st = (st', out)"
  shows "(st' = wtick (st\<lparr>batch_calls := batch_calls st @ [input]\<rparr>) \<or>
          st' = wtick (wtick (st\<lparr>batch_calls := batch_calls st @ [input]\<rparr>))) \<or>
         (\<exists>input'. (input' = input \<or> BatchWriteItem cl (wclock st) input = Inr input') \<and>
            batch_retry fuel cl input' (Suc attempt)
              (wtick (wtick (st\<lparr>batch_calls := batch_calls st @ [input]\<rparr>))) = (st', out))"
  using assms by (auto simp: Let_def split: sum.splits if_splits wait.splits)

lemma batch_retry_calls:
  assumes "unprocessed_within cl"
  shows "request_count input \<le> n \<Longrightarrow> batch_retry fuel cl input attempt st = (st', out) \<Longrightarrow>
     (\<exists>new. batch_calls st' = batch_calls st @ new \<and> (\<forall>c\<in>set new. request_count c \<le> n)) \<and>
     sub_batches st' = sub_batches st \<and> update_calls st' = update_calls st"
proof (induction fuel arbitrary: input attempt st)
  case 0
  then show ?case by simp
next
  case (Suc fuel)
  let ?st1 = "wtick (st\<lparr>batch_calls := batch_calls st @ [input]\<rparr>)"
  from batch_retry_Suc_cases [OF Suc.prems(2)]
  consider (fin) "st' = ?st1 \<or> st' = wtick ?st1"
    | (cont) input' where "input' = input \<or> BatchWriteItem cl (wclock st) input = Inr input'"
        "batch_retry fuel cl input' (Suc attempt) (wtick ?st1) = (st', out)"
    by blast
  then show ?case
  proof cases
    case fin
    with Suc.prems(1) show ?thesis by auto
  next
    case cont
    from cont(1) assms Suc.prems(1) have "request_count input' \<le> n"
      by (auto simp: unprocessed_within_def dest: le_trans)
    from Suc.IH [OF this cont(2)] obtain new where
      "batch_calls st' = batch_calls (wtick ?st1) @ new" "\<forall>c\<in>set new. request_count c \<le> n"
      "sub_batches st' = sub_batches (wtick ?st1)" "update_calls st' = update_calls (wtick ?st1)"
      by blast
    with Suc.prems(1) show ?thesis by (intro conjI exI [of _ "input # new"]) auto
  qed
qed

lemma update_retry_Suc_cases:
  assumes "update_retry (Suc fuel) cl input attempt st = (st', out)"
  shows "(st' = wtick (st\<lparr>update_calls := update_calls st @ [input]\<rparr>) \<or>
          st' = wtick (wtick (st\<lparr>update_calls := update_calls st @ [input]\<rparr>))) \<or>
         update_retry fuel cl input (Suc attempt)
           (wtick (wtick (st\<lparr>update_calls := update_calls st @ [input]\<rparr>))) = (st', out)"
  using assms by (auto simp: Let_def split: option.splits if_splits wait.splits)

lemma update_retry_calls:
  "update_retry fuel cl input attempt st = (st', out) \<Longrightarrow>
   batch_calls st' = batch_calls st \<and> sub_batches st' = sub_batches st"
proof (induction fuel arbitrary: attempt st)
  case 0
  then show ?case by simp
next
  case (Suc fuel)
  from update_retry_Suc_cases [OF Suc.prems] show ?case
    by (auto dest!: Suc.IH)
qed

lemma updateItem_calls:
  "updateItem fuel cl w op st = (st', out) \<Longrightarrow>
   batch_calls st' = batch_calls st \<and> sub_batches st' = sub_batches st"
  by (auto simp: updateItem_def Let_def split: prod.splits if_splits dest!: update_retry_calls)

lemma build_requests_calls:
  "build_requests fuel cl w ops requests st = (st', r) \<Longrightarrow>
   batch_calls st' = batch_calls st \<and> sub_batches st' = sub_batches st \<and>
   (\<forall>rs. r = Inr rs \<longrightarrow> length rs \<le> length requests + length ops)"
proof (induction ops arbitrary: requests st)
  case Nil
  then show ?case by auto
next
  case (Cons op ops)
  show ?case
  proof (cases "Type op")
    case OpPut
    with Cons.prems Cons.IH [of "requests @ [PutRequest (NewImage op)]" st] show ?thesis by auto
  next
    case OpDelete
    with Cons.prems Cons.IH [of "requests @ [DeleteRequest (Keys op)]" st] show ?thesis by auto
  next
    case OpUpdate
    obtain st1 o1 where u: "updateItem fuel cl w op st = (st1, o1)" by (metis surj_pair)
    from updateItem_calls [OF u] have same: "batch_calls st1 = batch_calls st" "sub_batches st1 = sub_batches st"
      by simp_all
    show ?thesis
    proof (cases "o1 = Return None")
      case True
      with OpUpdate u Cons.prems have "build_requests fuel cl w ops requests st1 = (st', r)" by simp
      from Cons.IH [OF this] same show ?thesis by auto
    next
      case False
      with OpUpdate u Cons.prems same show ?thesis
        by (cases o1) (auto split: option.splits)
    qed
  qed
qed


lemma build_requests_Inl:
  "build_requests fuel cl w ops requests st = (st', Inl out) \<Longrightarrow> out \<noteq> Return None"
proof (induction ops arbitrary: requests st)
  case Nil
  then show ?case by simp
next
  case (Cons op ops)
  show ?case
  proof (cases "Type op")
    case OpPut
    with Cons show ?thesis by auto
  next
    case OpDelete
    with Cons show ?thesis by auto
  next
    case OpUpdate
    obtain st1 o1 where u: "updateItem fuel cl w op st = (st1, o1)" by (metis surj_pair)
    show ?thesis
    proof (cases "o1 = Return None")
      case True
      with OpUpdate u Cons.prems have "build_requests fuel cl w ops requests st1 = (st', Inl out)"
        by simp
      from Cons.IH [OF this] show ?thesis .
    next
      case False
      with OpUpdate u Cons.prems show ?thesis by (cases o1) (auto split: option.splits)
    qed
  qed
qed

lemma take_end:
  "take ((if length ops < i + b then length ops else i + b) - i) (drop i ops) = take b (drop i ops)"
  by auto

lemma WriteBatch_loop_step:
  assumes cl: "unprocessed_within cl" and b: "0 < batchSize w" and i: "i < length ops"
    and run: "WriteBatch_loop fuel cl w ops i st = (st', out)"
  shows "\<exists>st2 new.
      batch_calls st2 = batch_calls st @ new \<and>
      (\<forall>c\<in>set new. request_count c \<le> nat (batchSize w)) \<and>
      sub_batches st2 = sub_batches st @ [take (nat (batchSize w)) (drop i ops)] \<and>
      ((st' = st2 \<and> out \<noteq> Return None) \<or>
       WriteBatch_loop fuel cl w ops (i + nat (batchSize w)) st2 = (st', out))"
proof -
  let ?B = "nat (batchSize w)"
  let ?batch = "take ?B (drop i ops)"
  let ?st1 = "st\<lparr>sub_batches := sub_batches st @ [?batch]\<rparr>"
  obtain st2 r where br: "build_requests fuel cl w ?batch [] ?st1 = (st2, r)" by (metis surj_pair)
  from build_requests_calls [OF br] have st2: "batch_calls st2 = batch_calls st"
    "sub_batches st2 = sub_batches st @ [?batch]"
    and len: "\<forall>rs. r = Inr rs \<longrightarrow> length rs \<le> ?B"
    by auto
  from run i b br have unfolded:
    "(case r of
        Inl out \<Rightarrow> (st2, out)
      | Inr requests \<Rightarrow>
          if length requests = 0 then WriteBatch_loop fuel cl w ops (i + ?B) st2
          else (case batch_retry fuel cl [(tableName w, requests)] 0 st2 of
                  (st3, Return None) \<Rightarrow> WriteBatch_loop fuel cl w ops (i + ?B) st3
                | (st3, out) \<Rightarrow> (st3, out))) = (st', out)"
    by (subst (asm) WriteBatch_loop.simps) (auto simp: take_end Let_def split: sum.splits)
  show ?thesis
  proof (cases r)
    case (Inl o1)
    with unfolded have "st' = st2" "out = o1" by simp_all
    moreover from br Inl have "o1 \<noteq> Return None" by (auto dest: build_requests_Inl)
    ultimately show ?thesis using st2 by (intro exI [of _ st2] exI [of _ "[]"]) simp
  next
    case (Inr requests)
    show ?thesis
    proof (cases "length requests = 0")
      case True
      with Inr unfolded st2 show ?thesis by (intro exI [of _ st2] exI [of _ "[]"]) simp
    next
      case False
      obtain st3 o3 where bt: "batch_retry fuel cl [(tableName w, requests)] 0 st2 = (st3, o3)"
        by (metis surj_pair)
      from len Inr have "request_count [(tableName w, requests)] \<le> ?B"
        by (simp add: request_count_def)
      from batch_retry_calls [OF cl this bt] st2 obtain new where
        st3: "batch_calls st3 = batch_calls st @ new" "\<forall>c\<in>set new. request_count c \<le> ?B"
          "sub_batches st3 = sub_batches st @ [?batch]"
        by auto
      show ?thesis
      proof (cases "o3 = Return None")
        case True
        with Inr False bt unfolded have "WriteBatch_loop fuel cl w ops (i + ?B) st3 = (st', out)"
          by simp
        with st3 show ?thesis by (intro exI [of _ st3] exI [of _ new]) simp
      next
        case nr: False
        with Inr False bt unfolded have "st' = st3" "out = o3"
          by (cases o3; auto split: option.splits)+
        with nr st3 show ?thesis by (intro exI [of _ st3] exI [of _ new]) simp
      qed
    qed
  qed
qed

lemma WriteBatch_loop_calls:
  assumes cl: "unprocessed_within cl" and b: "0 < batchSize w"
  shows "WriteBatch_loop fuel cl w ops i st = (st', out) \<Longrightarrow>
     (\<exists>new. batch_calls st' = batch_calls st @ new \<and>
        (\<forall>c\<in>set new. request_count c \<le> nat (batchSize w))) \<and>
     (\<exists>nb. sub_batches st' = sub_batches st @ nb \<and>
        (\<forall>x\<in>set nb. x \<noteq> [] \<and> length x \<le> nat (batchSize w)) \<and>
        (\<exists>rest. drop i ops = concat nb @ rest) \<and>
        (out = Return None \<longrightarrow> concat nb = drop i ops))"
proof (induction "length ops - i" arbitrary: i st rule: less_induct)
  case less
  let ?B = "nat (batchSize w)"
  show ?case
  proof (cases "i < length ops")
    case False
    with less.prems have "st' = st" "out = Return None"
      by (simp_all add: WriteBatch_loop.simps [of fuel cl w ops i st])
    with False show ?thesis by simp
  next
    case True
    let ?batch = "take ?B (drop i ops)"
    from WriteBatch_loop_step [OF cl b True less.prems] obtain st2 new where
      st2: "batch_calls st2 = batch_calls st @ new" "\<forall>c\<in>set new. request_count c \<le> ?B"
        "sub_batches st2 = sub_batches st @ [?batch]"
      and alt: "(st' = st2 \<and> out \<noteq> Return None) \<or>
           WriteBatch_loop fuel cl w ops (i + ?B) st2 = (st', out)"
      by blast
    from True b have batch: "?batch \<noteq> []" "length ?batch \<le> ?B" by auto
    have split: "drop i ops = ?batch @ drop (i + ?B) ops"
      by (metis add.commute append_take_drop_id drop_drop)
    from alt show ?thesis
    proof
      assume "st' = st2 \<and> out \<noteq> Return None"
      with st2 batch split show ?thesis
        by (intro conjI exI [of _ new] exI [of _ "[?batch]"] exI [of _ "drop (i + ?B) ops"]) auto
    next
      assume rec: "WriteBatch_loop fuel cl w ops (i + ?B) st2 = (st', out)"
      from True b have "length ops - (i + ?B) < length ops - i" by auto
      from less.hyps [OF this rec] obtain new2 nb rest where
        n2: "batch_calls st' = batch_calls st2 @ new2" "\<forall>c\<in>set new2. request_count c \<le> ?B"
        and nb: "sub_batches st' = sub_batches st2 @ nb"
          "\<forall>x\<in>set nb. x \<noteq> [] \<and> length x \<le> ?B"
          "drop (i + ?B) ops = concat nb @ rest"
          "out = Return None \<longrightarrow> concat nb = drop (i + ?B) ops"
        by blast
      have "\<exists>new. batch_calls st' = batch_calls st @ new \<and>
              (\<forall>c\<in>set new. request_count c \<le> ?B)"
        using st2 n2 by (intro exI [of _ "new @ new2"]) auto
      moreover have "\<exists>nb. sub_batches st' = sub_batches st @ nb \<and>
        (\<forall>x\<in>set nb. x \<noteq> [] \<and> length x \<le> ?B) \<and>
        (\<exists>rest. drop i ops = concat nb @ rest) \<and>
        (out = Return None \<longrightarrow> concat nb = drop i ops)"
        using st2 nb batch split by (intro exI [of _ "?batch # nb"]) auto
      ultimately show ?thesis by blast
    qed
  qed
qed

lemma request_count_tl:
  "request_count (map (\<lambda>(table, requests). (table, tl requests)) items) \<le> request_count items"
  by (induction items) (auto simp: request_count_def)

lemma partial_client_within: "unprocessed_within partial_client"
  using request_count_tl
  by (auto simp: unprocessed_within_def partial_client_def accepting_client_def request_count_def)



text \<open>
  C4.  For every slice of operations passed to \<open>WriteBatch\<close> and every configured
  batch size \<open>B\<close> with \<open>1 \<le> B \<le> 25\<close>, the writer partitions the input into
  sub-batches of at most \<open>B\<close> operations (taken in order; all of the input when the
  call returns success), and no batched-write call it issues contains more than \<open>B\<close>,
  hence more than 25, requests.  The service is taken to keep its contract: the
  unprocessed items of an answer are never more than the requests submitted.  The
  statement covers every observed run, whether the call has returned or is still
  retrying.
\<close>

theorem WriteBatch_batch_cap:
  assumes "1 \<le> batchSize w" and "batchSize w \<le> 25" and "unprocessed_within cl"
    and "WriteBatch fuel cl w ops st = (st', out)"
  shows "(\<exists>nb. sub_batches st' = sub_batches st @ nb \<and>
            (\<forall>x\<in>set nb. length x \<le> nat (batchSize w)) \<and>
            (\<exists>rest. ops = concat nb @ rest) \<and>
            (out = Return None \<longrightarrow> concat nb = ops)) \<and>
         (\<exists>new. batch_calls st' = batch_calls st @ new \<and>
            (\<forall>c\<in>set new. request_count c \<le> nat (batchSize w) \<and> request_count c \<le> 25))"
proof (cases "length ops = 0")
  case True
  with assms(4) show ?thesis by (simp add: WriteBatch_def)
next
  case False
  with assms(4) have run: "WriteBatch_loop fuel cl w ops 0 st = (st', out)"
    by (simp add: WriteBatch_def)
  from assms(1) have b: "0 < batchSize w" by simp
  from WriteBatch_loop_calls [OF assms(3) b run] obtain new nb rest where
    new: "batch_calls st' = batch_calls st @ new" "\<forall>c\<in>set new. request_count c \<le> nat (batchSize w)"
    and nb: "sub_batches st' = sub_batches st @ nb"
      "\<forall>x\<in>set nb. x \<noteq> [] \<and> length x \<le> nat (batchSize w)"
      "drop 0 ops = concat nb @ rest" "out = Return None \<longrightarrow> concat nb = drop 0 ops"
    by blast
  from new assms(2) have "\<forall>c\<in>set new. request_count c \<le> nat (batchSize w) \<and> request_count c \<le> 25"
    by auto
  with new(1) have 2: "\<exists>new. batch_calls st' = batch_calls st @ new \<and>
            (\<forall>c\<in>set new. request_count c \<le> nat (batchSize w) \<and> request_count c \<le> 25)"
    by blast
  from nb have 1: "\<exists>nb. sub_batches st' = sub_batches st @ nb \<and>
            (\<forall>x\<in>set nb. length x \<le> nat (batchSize w)) \<and>
            (\<exists>rest. ops = concat nb @ rest) \<and>
            (out = Return None \<longrightarrow> concat nb = ops)"
    by (intro exI [of _ nb]) auto
  from 1 2 show ?thesis by blast
qed


theorem WriteBatch_batch_cap_witness:
  "unprocessed_within partial_client \<and>
   snd (WriteBatch 3 partial_client small_writer [put_op, put_op, put_op] writer_state_zero) =
     Return None \<and>
   map request_count
     (batch_calls (fst (WriteBatch 3 partial_client small_writer [put_op, put_op, put_op]
                          writer_state_zero))) = [2, 1, 1] \<and>
   sub_batches (fst (WriteBatch 3 partial_client small_writer [put_op, put_op, put_op]
                       writer_state_zero)) = [[put_op, put_op], [put_op]] \<and>
   list_all (\<lambda>c. request_count c \<le> 25)
     (batch_calls (fst (WriteBatch 3 partial_client small_writer [put_op, put_op, put_op]
                          writer_state_zero)))"
proof -
  let ?r = "WriteBatch 3 partial_client small_writer [put_op, put_op, put_op] writer_state_zero"
  have b: "1 \<le> batchSize small_writer" "batchSize small_writer \<le> 25"
    by (simp_all add: small_writer_def)
  have run: "?r = (fst ?r, snd ?r)" by simp
  from WriteBatch_batch_cap [OF b partial_client_within run]
  have "list_all (\<lambda>c. request_count c \<le> 25) (batch_calls (fst ?r))"
    by (auto simp: writer_state_zero_def list_all_iff)
  moreover have "snd ?r = Return None" by code_simp
  moreover have "map request_count (batch_calls (fst ?r)) = [2, 1, 1]" by code_simp
  moreover have "sub_batches (fst ?r) = [[put_op, put_op], [put_op]]" by code_simp
  ultimately show ?thesis using partial_client_within by blast
qed


section \<open>The update translation\<close>



lemma non_key_attrs_Nil [simp]: "non_key_attrs keys [] = []"
  by (simp add: non_key_attrs_def)

lemma non_key_attrs_subset: "k \<in> set (non_key_attrs keys al) \<Longrightarrow> \<exists>x\<in>set al. k = fst x"
  by (auto simp: non_key_attrs_def)










end
